theory Spec2Isabelle
  imports Complex_Main "HOL-Library.Char_ord" "HOL-Library.List_Lexorder" "HOL-Library.Multiset"
begin

section \<open>Data model\<close>

text \<open>
  Errors are values. \<open>Err msg\<close> is an error handed back by a collaborator (the client
  factory, the selector parser, the cluster API); \<open>Wrap err msg\<close> is
  \<^verbatim>\<open>errors.Wrap(err, msg)\<close>; \<open>NilDeref\<close> is the run-time panic of a field access
  through a nil pointer (a map lookup of an absent key yields nil in Go).
\<close>

datatype error = Err string | Wrap error string | NilDeref

text \<open>
  \<^verbatim>\<open>resource.Quantity\<close> belongs to the Kubernetes API machinery, not to this
  program. The program only uses \<^verbatim>\<open>Add\<close>, \<^verbatim>\<open>Sub\<close>, the zero value,
  \<^verbatim>\<open>Value()\<close> and the assignment of one quantity to another. Addition and
  subtraction of quantities are exact, so a quantity is modelled as the rational number
  it denotes (in its base unit). \<^verbatim>\<open>Value()\<close>, the conversion to a machine integer,
  is taken as a parameter wherever the program calls it.

  The library holds a quantity either as a scaled 64-bit integer inside the struct or
  behind a pointer to a big decimal. The assignment of a quantity copies the struct, so
  in the second form both copies share the big decimal, and a later \<^verbatim>\<open>Sub\<close> on
  one of them writes through the pointer. The program assigns quantities in its
  finalization loop only; which form a total has there is a parameter of that loop
  (see \<open>finalizeRole\<close>).
\<close>

type_synonym Quantity = rat

text \<open>
  Go's \<^verbatim>\<open>int\<close> has 64 bits on the platforms the program is built for, and its
  arithmetic wraps around: \<open>wrapInt\<close> is the two's complement reading of the low 64
  bits. The counters of the program are modelled as \<open>int\<close>: every increment and every
  added length is bounded by the number of list elements the program has traversed, and
  the unready count is a difference of two such counters, so none of them leaves the
  64-bit range. The one subtraction whose operand comes from the quantity library,
  \<^verbatim>\<open>int(q.Value())\<close> minus a pod count, is wrapped explicitly.
\<close>

definition wrapInt :: "int \<Rightarrow> int" where
  "wrapInt x = (x + 2 ^ 63) mod 2 ^ 64 - 2 ^ 63"

record Container =
  Requests_Cpu :: Quantity
  Limits_Cpu :: Quantity
  Requests_Memory :: Quantity
  Limits_Memory :: Quantity

record Pod =
  Phase :: string
  Containers :: "Container list"

record NodeCondition =
  Type :: string
  Status :: string

text \<open>
  \<open>Labels\<close> is a Go map; it is listed here in the order in which one run's
  \<^verbatim>\<open>range\<close> visits it. The six quantities are the results of
  \<^verbatim>\<open>node.Status.Capacity.Pods()\<close> and its siblings (the zero quantity when the
  resource is not declared).
\<close>

record Node =
  Name :: string
  Labels :: "(string \<times> string) list"
  Conditions :: "NodeCondition list"
  Unschedulable :: bool
  Capacity_Pods :: Quantity
  Capacity_Cpu :: Quantity
  Capacity_Memory :: Quantity
  Allocatable_Pods :: Quantity
  Allocatable_Cpu :: Quantity
  Allocatable_Memory :: Quantity

text \<open>The fields of \<^verbatim>\<open>output.ClusterCapacityData\<close> that the two commands touch.\<close>

record ClusterCapacityData =
  TotalNodeCount :: int
  TotalReadyNodeCount :: int
  TotalUnreadyNodeCount :: int
  TotalUnschedulableNodeCount :: int
  TotalPodCount :: int
  TotalNonTermPodCount :: int
  TotalAvailablePods :: int
  TotalCapacityPods :: Quantity
  TotalCapacityCPU :: Quantity
  TotalCapacityMemory :: Quantity
  TotalAllocatablePods :: Quantity
  TotalAllocatableCPU :: Quantity
  TotalAllocatableMemory :: Quantity
  TotalRequestsCPU :: Quantity
  TotalLimitsCPU :: Quantity
  TotalRequestsMemory :: Quantity
  TotalLimitsMemory :: Quantity
  TotalAvailableCPU :: Quantity
  TotalAvailableMemory :: Quantity

text \<open>\<^verbatim>\<open>new(output.ClusterCapacityData)\<close>: every field has its zero value.\<close>

definition new_ClusterCapacityData :: ClusterCapacityData where
  "new_ClusterCapacityData =
     \<lparr>TotalNodeCount = 0, TotalReadyNodeCount = 0, TotalUnreadyNodeCount = 0,
      TotalUnschedulableNodeCount = 0, TotalPodCount = 0, TotalNonTermPodCount = 0,
      TotalAvailablePods = 0,
      TotalCapacityPods = 0, TotalCapacityCPU = 0, TotalCapacityMemory = 0,
      TotalAllocatablePods = 0, TotalAllocatableCPU = 0, TotalAllocatableMemory = 0,
      TotalRequestsCPU = 0, TotalLimitsCPU = 0, TotalRequestsMemory = 0,
      TotalLimitsMemory = 0, TotalAvailableCPU = 0, TotalAvailableMemory = 0\<rparr>"

text \<open>
  The cluster API as the program sees it. A generated \<^verbatim>\<open>List\<close> call returns a list
  object (never nil) together with an error value; both are kept, because the program
  reads the items of a pod listing without looking at the error.
  \<open>Pods_List c s\<close> is the answer to
  \<^verbatim>\<open>Pods("").List(metav1.ListOptions{FieldSelector: s})\<close>; the empty options carry
  the empty selector.
\<close>

record clientset =
  Nodes_List :: "Node list \<times> error option"
  Pods_List :: "string \<Rightarrow> Pod list \<times> error option"

section \<open>The cluster command\<close>

definition readyTrue :: "NodeCondition \<Rightarrow> bool" where
  "readyTrue condition \<longleftrightarrow> Type condition = ''Ready'' \<and> Status condition = ''True''"

definition clusterCondition :: "NodeCondition \<Rightarrow> ClusterCapacityData \<Rightarrow> ClusterCapacityData" where
  "clusterCondition condition d =
     (if readyTrue condition then d\<lparr>TotalReadyNodeCount := TotalReadyNodeCount d + 1\<rparr> else d)"

definition addNodeQuantities :: "Node \<Rightarrow> ClusterCapacityData \<Rightarrow> ClusterCapacityData" where
  "addNodeQuantities node d =
     d\<lparr>TotalCapacityPods := TotalCapacityPods d + Capacity_Pods node,
       TotalCapacityCPU := TotalCapacityCPU d + Capacity_Cpu node,
       TotalCapacityMemory := TotalCapacityMemory d + Capacity_Memory node,
       TotalAllocatablePods := TotalAllocatablePods d + Allocatable_Pods node,
       TotalAllocatableCPU := TotalAllocatableCPU d + Allocatable_Cpu node,
       TotalAllocatableMemory := TotalAllocatableMemory d + Allocatable_Memory node\<rparr>"

text \<open>The body of the loop over \<^verbatim>\<open>nodes.Items\<close> (cluster.go, lines 58 to 74).\<close>

definition clusterNode :: "Node \<Rightarrow> ClusterCapacityData \<Rightarrow> ClusterCapacityData" where
  "clusterNode node d0 =
     (let d1 = d0\<lparr>TotalNodeCount := TotalNodeCount d0 + 1\<rparr>;
          d2 = fold clusterCondition (Conditions node) d1;
          d3 = (if Unschedulable node
                then d2\<lparr>TotalUnschedulableNodeCount := TotalUnschedulableNodeCount d2 + 1\<rparr>
                else d2)
      in addNodeQuantities node d3)"

definition clusterContainer :: "Container \<Rightarrow> ClusterCapacityData \<Rightarrow> ClusterCapacityData" where
  "clusterContainer container d =
     d\<lparr>TotalRequestsCPU := TotalRequestsCPU d + Requests_Cpu container,
       TotalLimitsCPU := TotalLimitsCPU d + Limits_Cpu container,
       TotalRequestsMemory := TotalRequestsMemory d + Requests_Memory container,
       TotalLimitsMemory := TotalLimitsMemory d + Limits_Memory container\<rparr>"

definition clusterPod :: "Pod \<Rightarrow> ClusterCapacityData \<Rightarrow> ClusterCapacityData" where
  "clusterPod pod d = fold clusterContainer (Containers pod) d"

definition nonTermSelector :: string where
  "nonTermSelector = ''status.phase!=Succeeded,status.phase!=Failed''"

text \<open>
  \<^verbatim>\<open>clusterCmd.RunE\<close>. The two collaborators are parameters:
  \<open>CreateClientSet\<close> is the outcome of \<^verbatim>\<open>kube.CreateClientSet\<close>, and
  \<open>ParseSelector s\<close> is the outcome of \<^verbatim>\<open>fields.ParseSelector(s)\<close>, on success
  the selector's \<^verbatim>\<open>String()\<close>. The result \<open>Inl err\<close> is the returned error;
  \<open>Inr d\<close> means that \<^verbatim>\<open>output.DisplayClusterData\<close> was called with \<open>d\<close> and
  nil was returned. The error values of the two pod listings are dropped, as in the source.
\<close>

definition clusterRunE ::
  "error + clientset \<Rightarrow> (string \<Rightarrow> error + string) \<Rightarrow> error + ClusterCapacityData" where
  "clusterRunE CreateClientSet ParseSelector =
     (case CreateClientSet of
        Inl err \<Rightarrow> Inl (Wrap err ''failed to create clientset'')
      | Inr cs \<Rightarrow>
          (case Nodes_List cs of
             (nodes, Some err) \<Rightarrow> Inl (Wrap err ''failed to list nodes'')
           | (nodes, None) \<Rightarrow>
               (let d1 = fold clusterNode nodes new_ClusterCapacityData;
                    d2 = d1\<lparr>TotalUnreadyNodeCount := TotalNodeCount d1 - TotalReadyNodeCount d1\<rparr>;
                    totalPodsList = fst (Pods_List cs '''');
                    d3 = d2\<lparr>TotalPodCount := int (length totalPodsList)\<rparr>
                in case ParseSelector nonTermSelector of
                     Inl err \<Rightarrow> Inl (Wrap err ''failed to create fieldSelector'')
                   | Inr fieldSelector \<Rightarrow>
                       (let totalNonTermPodsList = fst (Pods_List cs fieldSelector);
                            d4 = d3\<lparr>TotalNonTermPodCount := int (length totalNonTermPodsList)\<rparr>
                        in Inr (fold clusterPod totalNonTermPodsList d4)))))"

section \<open>The node-role command\<close>

text \<open>\<^verbatim>\<open>strings.HasPrefix\<close> and \<^verbatim>\<open>strings.TrimPrefix\<close> of the Go library.\<close>

definition HasPrefix :: "string \<Rightarrow> string \<Rightarrow> bool" where
  "HasPrefix s pre \<longleftrightarrow> take (length pre) s = pre"

definition TrimPrefix :: "string \<Rightarrow> string \<Rightarrow> string" where
  "TrimPrefix s pre = (if HasPrefix s pre then drop (length pre) s else s)"

definition rolePrefix :: string where
  "rolePrefix = ''node-role.kubernetes.io/''"

text \<open>
  The set \<^verbatim>\<open>roles\<close> (a \<^verbatim>\<open>sets.String\<close>) is kept as a list without
  repetitions; \<^verbatim>\<open>roles.Insert\<close> is \<open>List.insert\<close>, which adds only an absent
  element. \<open>labelRole\<close> is the \<^verbatim>\<open>switch\<close> of lines 73 to 80: the first case that
  matches is taken.
\<close>

definition labelRole :: "string \<times> string \<Rightarrow> string list \<Rightarrow> string list" where
  "labelRole label roles =
     (case label of (labelKey, labelValue) \<Rightarrow>
        if HasPrefix labelKey rolePrefix then
          (let role = TrimPrefix labelKey rolePrefix
           in if length role > 0 then List.insert role roles else roles)
        else if labelKey = ''kubernetes.io/role'' \<and> labelValue \<noteq> [] then
          List.insert labelValue roles
        else roles)"

definition nodeRoles :: "Node \<Rightarrow> string list" where
  "nodeRoles node =
     (let roles = fold labelRole (Labels node) []
      in if length roles = 0 then List.insert ''<none>'' roles else roles)"

text \<open>The local variables of one pass of the node loop that the role loop reads.\<close>

record nodePods =
  totalPodCount :: int
  nonTerminatedPodCount :: int
  totalRequestsCPU :: Quantity
  totalLimitssCPU :: Quantity
  totalRequestsMemory :: Quantity
  totalLimitsMemory :: Quantity

definition nodeContainer :: "Container \<Rightarrow> nodePods \<Rightarrow> nodePods" where
  "nodeContainer container v =
     v\<lparr>totalRequestsCPU := totalRequestsCPU v + Requests_Cpu container,
       totalLimitssCPU := totalLimitssCPU v + Limits_Cpu container,
       totalRequestsMemory := totalRequestsMemory v + Requests_Memory container,
       totalLimitsMemory := totalLimitsMemory v + Limits_Memory container\<rparr>"

definition nodePod :: "Pod \<Rightarrow> nodePods \<Rightarrow> nodePods" where
  "nodePod pod v = fold nodeContainer (Containers pod) v"

definition addNodePods :: "nodePods \<Rightarrow> ClusterCapacityData \<Rightarrow> ClusterCapacityData" where
  "addNodePods v d =
     d\<lparr>TotalRequestsCPU := TotalRequestsCPU d + totalRequestsCPU v,
       TotalLimitsCPU := TotalLimitsCPU d + totalLimitssCPU v,
       TotalRequestsMemory := TotalRequestsMemory d + totalRequestsMemory v,
       TotalLimitsMemory := TotalLimitsMemory d + totalLimitsMemory v,
       TotalPodCount := TotalPodCount d + totalPodCount v,
       TotalNonTermPodCount := TotalNonTermPodCount d + nonTerminatedPodCount v\<rparr>"

text \<open>The branch for a role that is already in the map (lines 113 to 134).\<close>

definition existingRole :: "Node \<Rightarrow> nodePods \<Rightarrow> ClusterCapacityData \<Rightarrow> ClusterCapacityData" where
  "existingRole node v d0 =
     (let d1 = d0\<lparr>TotalNodeCount := TotalNodeCount d0 + 1\<rparr>;
          d2 = fold clusterCondition (Conditions node) d1;
          d3 = d2\<lparr>TotalUnreadyNodeCount := TotalNodeCount d2 - TotalReadyNodeCount d2\<rparr>;
          d4 = (if Unschedulable node
                then d3\<lparr>TotalUnschedulableNodeCount := TotalUnschedulableNodeCount d3 + 1\<rparr>
                else d3)
      in addNodePods v (addNodeQuantities node d4))"

text \<open>The branch for a role seen for the first time (lines 137 to 159).\<close>

definition newRoleCondition :: "NodeCondition \<Rightarrow> ClusterCapacityData \<Rightarrow> ClusterCapacityData" where
  "newRoleCondition condition d =
     (if readyTrue condition
      then d\<lparr>TotalReadyNodeCount := 1, TotalUnreadyNodeCount := 0\<rparr> else d)"

definition newRole :: "Node \<Rightarrow> nodePods \<Rightarrow> ClusterCapacityData" where
  "newRole node v =
     (let d1 = new_ClusterCapacityData\<lparr>TotalNodeCount := 1\<rparr>;
          d2 = fold newRoleCondition (Conditions node) d1;
          d3 = (if Unschedulable node then d2\<lparr>TotalUnschedulableNodeCount := 1\<rparr> else d2)
      in addNodePods v (addNodeQuantities node d3))"

text \<open>
  The state of the node loop: the map \<^verbatim>\<open>nodeRoleCapacityData\<close> and the slice
  \<^verbatim>\<open>roleNames\<close>. The map holds pointers to records that nothing else refers to, so
  a write through the pointer is an update of the map.
\<close>

type_synonym roleState = "(string \<rightharpoonup> ClusterCapacityData) \<times> string list"

definition roleStep :: "Node \<Rightarrow> nodePods \<Rightarrow> string \<Rightarrow> roleState \<Rightarrow> roleState" where
  "roleStep node v role st =
     (case st of (nodeRoleCapacityData, roleNames) \<Rightarrow>
        (case nodeRoleCapacityData role of
           Some nodeRoleData \<Rightarrow>
             (nodeRoleCapacityData(role \<mapsto> existingRole node v nodeRoleData), roleNames)
         | None \<Rightarrow>
             (nodeRoleCapacityData(role \<mapsto> newRole node v), roleNames @ [role])))"

definition nodePodData :: "Pod list \<Rightarrow> Pod list \<Rightarrow> nodePods" where
  "nodePodData nodePodsList totalNonTermPodsList =
     fold nodePod totalNonTermPodsList
       \<lparr>totalPodCount = int (length nodePodsList),
        nonTerminatedPodCount = int (length totalNonTermPodsList),
        totalRequestsCPU = 0, totalLimitssCPU = 0,
        totalRequestsMemory = 0, totalLimitsMemory = 0\<rparr>"

text \<open>
  One pass of the loop over \<^verbatim>\<open>nodes.Items\<close> (lines 69 to 164):
  \<open>nodePodsQuery\<close> is the two pod listings of the node and the sums over their
  containers (lines 86 to 109), \<open>nodeStep\<close> the whole pass. Go visits the
  elements of a map in an order of its own choosing; \<open>rangeRoles\<close> is the order in
  which this pass visits \<^verbatim>\<open>roles\<close>.
\<close>

definition nodePodsQuery ::
  "clientset \<Rightarrow> (string \<Rightarrow> error + string) \<Rightarrow> Node \<Rightarrow> error + nodePods" where
  "nodePodsQuery cs ParseSelector node =
     (case ParseSelector (''spec.nodeName='' @ Name node) of
        Inl err \<Rightarrow> Inl (Wrap err ''failed to create fieldSelector'')
      | Inr nodeFieldSelector \<Rightarrow>
          (let nodePodsList = fst (Pods_List cs nodeFieldSelector)
           in case ParseSelector (''spec.nodeName='' @ Name node @
                     '',status.phase!=Succeeded,status.phase!=Failed'') of
                Inl err \<Rightarrow> Inl (Wrap err ''failed to create fieldSelector'')
              | Inr nonTerminatedFieldSelector \<Rightarrow>
                  (let totalNonTermPodsList = fst (Pods_List cs nonTerminatedFieldSelector)
                   in Inr (nodePodData nodePodsList totalNonTermPodsList))))"

definition nodeStep ::
  "clientset \<Rightarrow> (string \<Rightarrow> error + string) \<Rightarrow> (string list \<Rightarrow> string list) \<Rightarrow>
   Node \<Rightarrow> roleState \<Rightarrow> error + roleState" where
  "nodeStep cs ParseSelector rangeRoles node st =
     (let roles = nodeRoles node
      in case nodePodsQuery cs ParseSelector node of
           Inl err \<Rightarrow> Inl err
         | Inr v \<Rightarrow> Inr (fold (roleStep node v) (rangeRoles roles) st))"

text \<open>The node loop; \<open>rangeOrder i\<close> is the visiting order of the pass number \<open>i\<close>.\<close>

fun nodeLoop ::
  "clientset \<Rightarrow> (string \<Rightarrow> error + string) \<Rightarrow> (nat \<Rightarrow> string list \<Rightarrow> string list) \<Rightarrow>
   nat \<Rightarrow> Node list \<Rightarrow> roleState \<Rightarrow> error + roleState" where
  "nodeLoop cs ParseSelector rangeOrder i [] st = Inr st"
| "nodeLoop cs ParseSelector rangeOrder i (node # nodes) st =
     (case nodeStep cs ParseSelector (rangeOrder i) node st of
        Inl err \<Rightarrow> Inl err
      | Inr st' \<Rightarrow> nodeLoop cs ParseSelector rangeOrder (Suc i) nodes st')"

text \<open>
  The body of the finalization loop (lines 167 to 171) on the record of one role.
  \<open>Value\<close> is \<^verbatim>\<open>int(q.Value())\<close> of the quantity library. \<open>held\<close> tells
  whether the allocatable CPU total (first component) and the allocatable memory total
  (second component) of the role are held behind a pointer to a big decimal when the
  loop reaches the role. Lines 168 and 170 copy the struct of the allocatable total into
  the available field, and lines 169 and 171 subtract the requests from the copy. When
  the total is held behind a pointer, the copy shares the big decimal and the
  subtraction overwrites it: the allocatable total then reads the difference as well.
\<close>

definition finalizeRole ::
  "(Quantity \<Rightarrow> int) \<Rightarrow> bool \<times> bool \<Rightarrow> ClusterCapacityData \<Rightarrow> ClusterCapacityData" where
  "finalizeRole Value held d0 =
     (let d1 = d0\<lparr>TotalAvailablePods :=
                   wrapInt (Value (TotalAllocatablePods d0) - TotalNonTermPodCount d0)\<rparr>;
          cpu = TotalAllocatableCPU d1 - TotalRequestsCPU d1;
          d2 = (if fst held then d1\<lparr>TotalAvailableCPU := cpu, TotalAllocatableCPU := cpu\<rparr>
                else d1\<lparr>TotalAvailableCPU := cpu\<rparr>);
          memory = TotalAllocatableMemory d2 - TotalRequestsMemory d2
      in if snd held then d2\<lparr>TotalAvailableMemory := memory, TotalAllocatableMemory := memory\<rparr>
         else d2\<lparr>TotalAvailableMemory := memory\<rparr>)"

text \<open>
  The finalization loop (lines 166 to 172); \<open>heldAsDec role\<close> is the form of the two
  allocatable totals of \<open>role\<close>. A role name that is not a key of the map would yield
  a nil pointer, and the assignment through it would panic.
\<close>

fun finalizeLoop ::
  "(Quantity \<Rightarrow> int) \<Rightarrow> (string \<Rightarrow> bool \<times> bool) \<Rightarrow> string list \<Rightarrow>
   (string \<rightharpoonup> ClusterCapacityData) \<Rightarrow> error + (string \<rightharpoonup> ClusterCapacityData)" where
  "finalizeLoop Value heldAsDec [] nodeRoleCapacityData = Inr nodeRoleCapacityData"
| "finalizeLoop Value heldAsDec (role # roleNames) nodeRoleCapacityData =
     (case nodeRoleCapacityData role of
        None \<Rightarrow> Inl NilDeref
      | Some d \<Rightarrow>
          finalizeLoop Value heldAsDec roleNames
            (nodeRoleCapacityData(role \<mapsto> finalizeRole Value (heldAsDec role) d)))"

text \<open>
  \<^verbatim>\<open>nodeRoleCmd.RunE\<close> up to the end of the node loop (lines 50 to 164): the map
  and the role names as they enter the finalization loop.
\<close>

definition nodeRoleAccumulate ::
  "error + clientset \<Rightarrow> (string \<Rightarrow> error + string) \<Rightarrow>
   (nat \<Rightarrow> string list \<Rightarrow> string list) \<Rightarrow> error + roleState" where
  "nodeRoleAccumulate CreateClientSet ParseSelector rangeOrder =
     (case CreateClientSet of
        Inl err \<Rightarrow> Inl (Wrap err ''failed to create clientset'')
      | Inr cs \<Rightarrow>
          (case Nodes_List cs of
             (nodes, Some err) \<Rightarrow> Inl (Wrap err ''failed to list nodes'')
           | (nodes, None) \<Rightarrow> nodeLoop cs ParseSelector rangeOrder 0 nodes (Map.empty, [])))"

text \<open>
  \<^verbatim>\<open>nodeRoleCmd.RunE\<close>. \<open>Inr (data, roleNames)\<close> means that
  \<^verbatim>\<open>output.DisplayNodeRoleData\<close> was called with this map and this slice and nil was
  returned. \<^verbatim>\<open>sort.Strings\<close> orders Go strings byte by byte, which is the
  lexicographic order of \<open>string\<close>. The error values of the pod listings are dropped,
  as in the source.
\<close>

definition nodeRoleRunE ::
  "error + clientset \<Rightarrow> (string \<Rightarrow> error + string) \<Rightarrow> (Quantity \<Rightarrow> int) \<Rightarrow>
   (string \<Rightarrow> bool \<times> bool) \<Rightarrow> (nat \<Rightarrow> string list \<Rightarrow> string list) \<Rightarrow>
   error + roleState" where
  "nodeRoleRunE CreateClientSet ParseSelector Value heldAsDec rangeOrder =
     (case nodeRoleAccumulate CreateClientSet ParseSelector rangeOrder of
        Inl err \<Rightarrow> Inl err
      | Inr (nodeRoleCapacityData, roleNames) \<Rightarrow>
          (case finalizeLoop Value heldAsDec roleNames nodeRoleCapacityData of
             Inl err \<Rightarrow> Inl err
           | Inr data \<Rightarrow> Inr (data, sort roleNames)))"

text \<open>
  A visiting order is admissible when every pass visits each element of the set once.
\<close>

definition validRange :: "(nat \<Rightarrow> string list \<Rightarrow> string list) \<Rightarrow> bool" where
  "validRange rangeOrder \<longleftrightarrow> (\<forall>i xs. mset (rangeOrder i xs) = mset xs)"

section \<open>Notions used to state the properties\<close>

text \<open>The number of conditions of a node with type Ready and status True.\<close>

definition readyConditions :: "Node \<Rightarrow> int" where
  "readyConditions node = int (length (filter readyTrue (Conditions node)))"

text \<open>
  A pod is non-terminated when its phase is neither Succeeded nor Failed: the pods that
  the cluster API selects for the selector \<open>nonTermSelector\<close>.
\<close>

definition nonTerminated :: "Pod \<Rightarrow> bool" where
  "nonTerminated pod \<longleftrightarrow> Phase pod \<noteq> ''Succeeded'' \<and> Phase pod \<noteq> ''Failed''"

text \<open>The sum of one container quantity over all containers of a list of pods.\<close>

definition podSum :: "(Container \<Rightarrow> Quantity) \<Rightarrow> Pod list \<Rightarrow> Quantity" where
  "podSum f pods = sum_list (map (\<lambda>pod. sum_list (map f (Containers pod))) pods)"

text \<open>
  The roles that the labels of a node name: the non-empty suffixes of the keys that
  start with \<open>rolePrefix\<close>, and the non-empty value of the key
  \<^verbatim>\<open>kubernetes.io/role\<close>.
\<close>

definition specRoles :: "(string \<times> string) list \<Rightarrow> string set" where
  "specRoles labels =
     {role. role \<noteq> [] \<and> (\<exists>labelValue. (rolePrefix @ role, labelValue) \<in> set labels)} \<union>
     {labelValue. labelValue \<noteq> [] \<and> (''kubernetes.io/role'', labelValue) \<in> set labels}"

text \<open>The slice \<^verbatim>\<open>roleNames\<close> lists the keys of the map, each once.\<close>

definition namesInv :: "roleState \<Rightarrow> bool" where
  "namesInv st \<longleftrightarrow> set (snd st) = dom (fst st) \<and> distinct (snd st)"

text \<open>
  The effect of one pass of the node loop on the map: every role of the node gets the
  new or the updated record, every other entry is left alone.
\<close>

definition roleUpdate ::
  "Node \<Rightarrow> nodePods \<Rightarrow> (string \<rightharpoonup> ClusterCapacityData) \<Rightarrow> (string \<rightharpoonup> ClusterCapacityData)" where
  "roleUpdate node v m =
     (\<lambda>role. if role \<in> set (nodeRoles node)
             then Some (case m role of None \<Rightarrow> newRole node v | Some d \<Rightarrow> existingRole node v d)
             else m role)"

text \<open>
  What the program is to know about the pods of one node, stated on the answers of the
  cluster API and not on the loops of the program: the number of pods in the listing
  for the node's name, the number of pods in the listing that also excludes the phases
  Succeeded and Failed, and the sums of the requests and limits over the containers of
  the latter. The zero record stands for a node whose selector cannot be built, where
  the node loop stops.
\<close>

definition nodeSelector :: "Node \<Rightarrow> string" where
  "nodeSelector node = ''spec.nodeName='' @ Name node"

definition nodeNonTermSelector :: "Node \<Rightarrow> string" where
  "nodeNonTermSelector node = ''spec.nodeName='' @ Name node @ '','' @ nonTermSelector"

definition nodeContribution ::
  "clientset \<Rightarrow> (string \<Rightarrow> error + string) \<Rightarrow> Node \<Rightarrow> nodePods" where
  "nodeContribution cs ParseSelector node =
     (case (ParseSelector (nodeSelector node), ParseSelector (nodeNonTermSelector node)) of
        (Inr byName, Inr byNameNonTerm) \<Rightarrow>
          \<lparr>totalPodCount = int (length (fst (Pods_List cs byName))),
           nonTerminatedPodCount = int (length (fst (Pods_List cs byNameNonTerm))),
           totalRequestsCPU = podSum Requests_Cpu (fst (Pods_List cs byNameNonTerm)),
           totalLimitssCPU = podSum Limits_Cpu (fst (Pods_List cs byNameNonTerm)),
           totalRequestsMemory = podSum Requests_Memory (fst (Pods_List cs byNameNonTerm)),
           totalLimitsMemory = podSum Limits_Memory (fst (Pods_List cs byNameNonTerm))\<rparr>
      | _ \<Rightarrow>
          \<lparr>totalPodCount = 0, nonTerminatedPodCount = 0, totalRequestsCPU = 0,
           totalLimitssCPU = 0, totalRequestsMemory = 0, totalLimitsMemory = 0\<rparr>)"

text \<open>The nodes of a list that belong to a role.\<close>

definition members :: "string \<Rightarrow> Node list \<Rightarrow> Node list" where
  "members role nodes = filter (\<lambda>node. role \<in> set (nodeRoles node)) nodes"

text \<open>
  A record holds the undivided contribution of each node of \<open>ms\<close>: the node count,
  the capacity quantities, the allocatable pods, the pod counts and the request and
  limit sums (\<open>roleTotals\<close>), and the allocatable CPU and memory
  (\<open>allocatableTotals\<close>). The two allocatable totals are kept apart because the
  finalization loop may overwrite them.
\<close>

definition roleTotals :: "(Node \<Rightarrow> nodePods) \<Rightarrow> Node list \<Rightarrow> ClusterCapacityData \<Rightarrow> bool" where
  "roleTotals contribution ms d \<longleftrightarrow>
     TotalNodeCount d = int (length ms) \<and>
     TotalCapacityPods d = sum_list (map Capacity_Pods ms) \<and>
     TotalCapacityCPU d = sum_list (map Capacity_Cpu ms) \<and>
     TotalCapacityMemory d = sum_list (map Capacity_Memory ms) \<and>
     TotalAllocatablePods d = sum_list (map Allocatable_Pods ms) \<and>
     TotalPodCount d = sum_list (map (\<lambda>node. totalPodCount (contribution node)) ms) \<and>
     TotalNonTermPodCount d = sum_list (map (\<lambda>node. nonTerminatedPodCount (contribution node)) ms) \<and>
     TotalRequestsCPU d = sum_list (map (\<lambda>node. totalRequestsCPU (contribution node)) ms) \<and>
     TotalLimitsCPU d = sum_list (map (\<lambda>node. totalLimitssCPU (contribution node)) ms) \<and>
     TotalRequestsMemory d = sum_list (map (\<lambda>node. totalRequestsMemory (contribution node)) ms) \<and>
     TotalLimitsMemory d = sum_list (map (\<lambda>node. totalLimitsMemory (contribution node)) ms)"

definition allocatableTotals :: "Node list \<Rightarrow> ClusterCapacityData \<Rightarrow> bool" where
  "allocatableTotals ms d \<longleftrightarrow>
     TotalAllocatableCPU d = sum_list (map Allocatable_Cpu ms) \<and>
     TotalAllocatableMemory d = sum_list (map Allocatable_Memory ms)"

definition fullTotals :: "(Node \<Rightarrow> nodePods) \<Rightarrow> Node list \<Rightarrow> ClusterCapacityData \<Rightarrow> bool" where
  "fullTotals contribution ms d \<longleftrightarrow> roleTotals contribution ms d \<and> allocatableTotals ms d"

definition totalsInv ::
  "(Node \<Rightarrow> nodePods) \<Rightarrow> Node list \<Rightarrow> (string \<rightharpoonup> ClusterCapacityData) \<Rightarrow> bool" where
  "totalsInv contribution nodes m \<longleftrightarrow>
     (\<forall>role. case m role of
               None \<Rightarrow> members role nodes = []
             | Some d \<Rightarrow> fullTotals contribution (members role nodes) d)"

text \<open>
  Two readings of one node: the same fields and the same label map, the labels listed in
  possibly different visiting orders. Two readings of one cluster state: the same nodes
  in this sense, the same outcome of the node listing, the same answers to pod listings.
\<close>

definition sameNode :: "Node \<Rightarrow> Node \<Rightarrow> bool" where
  "sameNode node1 node2 \<longleftrightarrow>
     mset (Labels node1) = mset (Labels node2) \<and> node2 = node1\<lparr>Labels := Labels node2\<rparr>"

definition sameState :: "clientset \<Rightarrow> clientset \<Rightarrow> bool" where
  "sameState cs1 cs2 \<longleftrightarrow>
     list_all2 sameNode (fst (Nodes_List cs1)) (fst (Nodes_List cs2)) \<and>
     snd (Nodes_List cs1) = snd (Nodes_List cs2) \<and>
     Pods_List cs1 = Pods_List cs2"

section \<open>Example inputs\<close>

text \<open>
  A node with capacity 4 CPU and 8Gi of memory, allocatable 3.5 CPU and 7Gi, one
  condition Ready with status True, schedulable, without labels; and a running pod with
  one container requesting 1 CPU and 2Gi.
\<close>

definition exampleNode :: Node where
  "exampleNode =
     \<lparr>Name = ''node-a'', Labels = [],
      Conditions = [\<lparr>Type = ''Ready'', Status = ''True''\<rparr>], Unschedulable = False,
      Capacity_Pods = 110, Capacity_Cpu = 4, Capacity_Memory = 8589934592,
      Allocatable_Pods = 110, Allocatable_Cpu = 7 / 2, Allocatable_Memory = 7516192768\<rparr>"

definition examplePod :: Pod where
  "examplePod =
     \<lparr>Phase = ''Running'',
      Containers = [\<lparr>Requests_Cpu = 1, Limits_Cpu = 2,
                     Requests_Memory = 2147483648, Limits_Memory = 4294967296\<rparr>]\<rparr>"

text \<open>A cluster API that answers every pod listing with the same pods and no error.\<close>

definition exampleClient :: "Node list \<Rightarrow> Pod list \<Rightarrow> clientset" where
  "exampleClient nodes pods = \<lparr>Nodes_List = (nodes, None), Pods_List = (\<lambda>s. (pods, None))\<rparr>"

text \<open>A cluster API whose node listing succeeds and whose pod listings all fail.\<close>

definition podsFailClient :: clientset where
  "podsFailClient =
     \<lparr>Nodes_List = ([exampleNode], None),
      Pods_List = (\<lambda>s. ([], Some (Err ''connection refused'')))\<rparr>"

text \<open>
  A cluster API that answers the unfiltered listing with a running and a succeeded pod
  and every other listing with the running pod alone.
\<close>

definition phaseClient :: clientset where
  "phaseClient =
     \<lparr>Nodes_List = ([exampleNode], None),
      Pods_List = (\<lambda>s. if s = [] then ([examplePod, examplePod\<lparr>Phase := ''Succeeded''\<rparr>], None)
                       else ([examplePod], None))\<rparr>"

text \<open>
  \<^verbatim>\<open>Value()\<close> as the quantity library documents it: the value rounded to the
  nearest integer away from zero, of which the result type \<^verbatim>\<open>int64\<close> keeps the low
  64 bits.
\<close>

definition exampleValue :: "Quantity \<Rightarrow> int" where
  "exampleValue q = wrapInt (if 0 \<le> q then \<lceil>q\<rceil> else \<lfloor>q\<rfloor>)"

text \<open>Every allocatable total is held as a scaled 64-bit integer.\<close>

definition heldAsInt64 :: "string \<Rightarrow> bool \<times> bool" where
  "heldAsInt64 role = (False, False)"

text \<open>The record that the cluster command builds for \<open>exampleNode\<close> and \<open>examplePod\<close>.\<close>

definition exampleRecord :: ClusterCapacityData where
  "exampleRecord =
     \<lparr>TotalNodeCount = 1, TotalReadyNodeCount = 1, TotalUnreadyNodeCount = 0,
      TotalUnschedulableNodeCount = 0, TotalPodCount = 1, TotalNonTermPodCount = 1,
      TotalAvailablePods = 0,
      TotalCapacityPods = 110, TotalCapacityCPU = 4, TotalCapacityMemory = 8589934592,
      TotalAllocatablePods = 110, TotalAllocatableCPU = 7 / 2,
      TotalAllocatableMemory = 7516192768,
      TotalRequestsCPU = 1, TotalLimitsCPU = 2, TotalRequestsMemory = 2147483648,
      TotalLimitsMemory = 4294967296, TotalAvailableCPU = 0, TotalAvailableMemory = 0\<rparr>"

text \<open>
  The allocatable CPU total of every role is held behind a pointer to a big decimal
  (as for a total that a scaled 64-bit integer cannot hold), the allocatable memory
  total as a scaled 64-bit integer.
\<close>

definition cpuHeldAsDec :: "string \<Rightarrow> bool \<times> bool" where
  "cpuHeldAsDec role = (True, False)"

text \<open>
  The record that the node-role command renders for a node with -2^63 allocatable pods
  and 12345678901234567890123 allocatable CPU, held behind a pointer, and a pod
  requesting 1 CPU.
\<close>

definition overflowRecord :: ClusterCapacityData where
  "overflowRecord =
     exampleRecord\<lparr>TotalAllocatablePods := - 9223372036854775808,
       TotalAvailablePods := 9223372036854775807,
       TotalAllocatableCPU := 12345678901234567890122,
       TotalAvailableCPU := 12345678901234567890122,
       TotalAvailableMemory := 5368709120\<rparr>"

text \<open>Two labels that name the roles master and etcd.\<close>

definition masterLabel :: "string \<times> string" where
  "masterLabel = (''node-role.kubernetes.io/master'', [])"

definition etcdLabel :: "string \<times> string" where
  "etcdLabel = (''node-role.kubernetes.io/etcd'', [])"

section \<open>Auxiliary facts\<close>

subsection \<open>The loops of the cluster command in closed form\<close>

lemma fold_clusterCondition:
  "fold clusterCondition cs d =
     d\<lparr>TotalReadyNodeCount := TotalReadyNodeCount d + int (length (filter readyTrue cs))\<rparr>"
  by (induction cs arbitrary: d) (simp_all add: clusterCondition_def)

lemma fold_clusterNode_count:
  "TotalNodeCount (fold clusterNode nodes d) = TotalNodeCount d + int (length nodes)"
  by (induction nodes arbitrary: d)
     (simp_all add: clusterNode_def Let_def fold_clusterCondition addNodeQuantities_def)

lemma fold_clusterNode_ready:
  "TotalReadyNodeCount (fold clusterNode nodes d) =
     TotalReadyNodeCount d + sum_list (map readyConditions nodes)"
  by (induction nodes arbitrary: d)
     (simp_all add: clusterNode_def Let_def fold_clusterCondition addNodeQuantities_def
        readyConditions_def)

lemma fold_clusterNode_alloc:
  "TotalAllocatableCPU (fold clusterNode nodes d) =
     TotalAllocatableCPU d + sum_list (map Allocatable_Cpu nodes)"
  "TotalAllocatableMemory (fold clusterNode nodes d) =
     TotalAllocatableMemory d + sum_list (map Allocatable_Memory nodes)"
  "TotalAllocatablePods (fold clusterNode nodes d) =
     TotalAllocatablePods d + sum_list (map Allocatable_Pods nodes)"
  by (induction nodes arbitrary: d)
     (simp_all add: clusterNode_def Let_def fold_clusterCondition addNodeQuantities_def)

lemma fold_clusterNode_untouched:
  "TotalAvailablePods (fold clusterNode nodes d) = TotalAvailablePods d"
  "TotalAvailableCPU (fold clusterNode nodes d) = TotalAvailableCPU d"
  "TotalAvailableMemory (fold clusterNode nodes d) = TotalAvailableMemory d"
  "TotalRequestsCPU (fold clusterNode nodes d) = TotalRequestsCPU d"
  "TotalLimitsCPU (fold clusterNode nodes d) = TotalLimitsCPU d"
  "TotalRequestsMemory (fold clusterNode nodes d) = TotalRequestsMemory d"
  "TotalLimitsMemory (fold clusterNode nodes d) = TotalLimitsMemory d"
  by (induction nodes arbitrary: d)
     (simp_all add: clusterNode_def Let_def fold_clusterCondition addNodeQuantities_def)

lemma fold_clusterContainer:
  "fold clusterContainer cs d =
     d\<lparr>TotalRequestsCPU := TotalRequestsCPU d + sum_list (map Requests_Cpu cs),
       TotalLimitsCPU := TotalLimitsCPU d + sum_list (map Limits_Cpu cs),
       TotalRequestsMemory := TotalRequestsMemory d + sum_list (map Requests_Memory cs),
       TotalLimitsMemory := TotalLimitsMemory d + sum_list (map Limits_Memory cs)\<rparr>"
  by (induction cs arbitrary: d) (simp_all add: clusterContainer_def add.assoc)

lemma fold_clusterPod:
  "fold clusterPod pods d =
     d\<lparr>TotalRequestsCPU := TotalRequestsCPU d + podSum Requests_Cpu pods,
       TotalLimitsCPU := TotalLimitsCPU d + podSum Limits_Cpu pods,
       TotalRequestsMemory := TotalRequestsMemory d + podSum Requests_Memory pods,
       TotalLimitsMemory := TotalLimitsMemory d + podSum Limits_Memory pods\<rparr>"
  by (induction pods arbitrary: d)
     (simp_all add: clusterPod_def fold_clusterContainer podSum_def add.assoc)

lemma clusterRunE_Inr:
  assumes "clusterRunE (Inr cs) ParseSelector = Inr d"
  obtains nodes sel where
    "Nodes_List cs = (nodes, None)" "ParseSelector nonTermSelector = Inr sel"
    "d = fold clusterPod (fst (Pods_List cs sel))
          ((fold clusterNode nodes new_ClusterCapacityData)
            \<lparr>TotalUnreadyNodeCount :=
                TotalNodeCount (fold clusterNode nodes new_ClusterCapacityData) -
                TotalReadyNodeCount (fold clusterNode nodes new_ClusterCapacityData),
             TotalPodCount := int (length (fst (Pods_List cs ''''))),
             TotalNonTermPodCount := int (length (fst (Pods_List cs sel)))\<rparr>)"
  using assms
  by (auto simp: clusterRunE_def Let_def split: prod.splits option.splits sum.splits)

lemma cluster_unready:
  assumes "clusterRunE (Inr cs) ParseSelector = Inr d"
  shows "TotalUnreadyNodeCount d = TotalNodeCount d - TotalReadyNodeCount d"
  using assms
  by (elim clusterRunE_Inr) (simp add: fold_clusterPod)

lemma cluster_available_untouched:
  assumes "clusterRunE cc ParseSelector = Inr d"
  shows "TotalAvailablePods d = 0 \<and> TotalAvailableCPU d = 0 \<and> TotalAvailableMemory d = 0"
proof -
  from assms obtain cs where "cc = Inr cs"
    by (cases cc) (simp_all add: clusterRunE_def)
  with assms have "clusterRunE (Inr cs) ParseSelector = Inr d" by simp
  then show ?thesis
    by (elim clusterRunE_Inr)
       (simp add: fold_clusterPod fold_clusterNode_untouched new_ClusterCapacityData_def)
qed

subsection \<open>Role derivation\<close>

lemma HasPrefix_iff: "HasPrefix s pre \<longleftrightarrow> (\<exists>r. s = pre @ r)"
  unfolding HasPrefix_def
  by (metis append_eq_conv_conj append_take_drop_id)

lemma role_key_no_prefix: "\<not> HasPrefix ''kubernetes.io/role'' rolePrefix"
  by (simp add: HasPrefix_def rolePrefix_def)

lemma set_labelRole:
  "set (labelRole (k, v) roles) = set roles \<union> specRoles [(k, v)]"
proof (cases "HasPrefix k rolePrefix")
  case True
  then obtain r where k: "k = rolePrefix @ r" by (auto simp: HasPrefix_iff)
  have "k \<noteq> ''kubernetes.io/role''" using True role_key_no_prefix by auto
  with True k show ?thesis
    by (auto simp: labelRole_def TrimPrefix_def specRoles_def)
next
  case False
  then have "\<And>r. rolePrefix @ r \<noteq> k" by (auto simp: HasPrefix_iff)
  with False show ?thesis
    by (auto simp: labelRole_def specRoles_def)
qed

lemma specRoles_Cons: "specRoles (l # ls) = specRoles [l] \<union> specRoles ls"
  by (auto simp: specRoles_def)

lemma specRoles_Nil: "specRoles [] = {}"
  by (simp add: specRoles_def)

lemma set_fold_labelRole:
  "set (fold labelRole labels roles) = set roles \<union> specRoles labels"
proof (induction labels arbitrary: roles)
  case Nil
  show ?case by (simp add: specRoles_Nil)
next
  case (Cons l ls)
  obtain k v where l: "l = (k, v)" by (cases l)
  show ?case
    using Cons.IH [of "labelRole l roles"] specRoles_Cons [of l ls]
    by (auto simp: l set_labelRole)
qed

lemma distinct_labelRole: "distinct roles \<Longrightarrow> distinct (labelRole l roles)"
  by (cases l) (simp add: labelRole_def Let_def)

lemma distinct_fold_labelRole:
  "distinct roles \<Longrightarrow> distinct (fold labelRole labels roles)"
  by (induction labels arbitrary: roles) (simp_all add: distinct_labelRole)

lemma distinct_nodeRoles: "distinct (nodeRoles node)"
  by (simp add: nodeRoles_def Let_def distinct_fold_labelRole)

lemma set_nodeRoles:
  "set (nodeRoles node) =
     (if specRoles (Labels node) = {} then {''<none>''} else specRoles (Labels node))"
proof -
  let ?roles = "fold labelRole (Labels node) []"
  have s: "set ?roles = specRoles (Labels node)"
    using set_fold_labelRole [of "Labels node" "[]"] by simp
  show ?thesis
  proof (cases "?roles = []")
    case True
    with s have "specRoles (Labels node) = {}" by simp
    with True show ?thesis by (simp add: nodeRoles_def)
  next
    case False
    then have "set ?roles \<noteq> {}" by simp
    with s have "specRoles (Labels node) \<noteq> {}" by simp
    with False s show ?thesis by (simp add: nodeRoles_def)
  qed
qed

subsection \<open>The role names list the keys of the map\<close>

lemma roleStep_namesInv: "namesInv st \<Longrightarrow> namesInv (roleStep node v role st)"
  by (cases st) (auto simp: namesInv_def roleStep_def split: option.splits)

lemma fold_roleStep_namesInv:
  "namesInv st \<Longrightarrow> namesInv (fold (roleStep node v) roles st)"
  by (induction roles arbitrary: st) (simp_all add: roleStep_namesInv)

lemma nodeStep_namesInv:
  "nodeStep cs ParseSelector rangeRoles node st = Inr st' \<Longrightarrow> namesInv st \<Longrightarrow> namesInv st'"
  by (auto simp: nodeStep_def Let_def fold_roleStep_namesInv split: sum.splits)

lemma nodeLoop_namesInv:
  "nodeLoop cs ParseSelector rangeOrder i nodes st = Inr st' \<Longrightarrow> namesInv st \<Longrightarrow> namesInv st'"
proof (induction nodes arbitrary: i st)
  case Nil
  then show ?case by simp
next
  case (Cons node nodes)
  from Cons.prems(1) obtain st1 where
    step: "nodeStep cs ParseSelector (rangeOrder i) node st = Inr st1" and
    rest: "nodeLoop cs ParseSelector rangeOrder (Suc i) nodes st1 = Inr st'"
    by (auto split: sum.splits)
  from step Cons.prems(2) have "namesInv st1" by (rule nodeStep_namesInv)
  with rest show ?case by (rule Cons.IH)
qed

subsection \<open>The finalization loop\<close>

lemma wrapInt_id: "- (2 ^ 63) \<le> x \<Longrightarrow> x < 2 ^ 63 \<Longrightarrow> wrapInt x = x"
  by (simp add: wrapInt_def)

text \<open>
  What the body does to the allocatable totals: a total held as a scaled 64-bit integer
  is left alone, a total held behind a pointer reads the difference afterwards.
\<close>

lemma finalizeRole_allocatable:
  "TotalAllocatableCPU (finalizeRole Value held d) =
     (if fst held then TotalAllocatableCPU d - TotalRequestsCPU d else TotalAllocatableCPU d)"
  "TotalAllocatableMemory (finalizeRole Value held d) =
     (if snd held then TotalAllocatableMemory d - TotalRequestsMemory d
      else TotalAllocatableMemory d)"
  by (simp_all add: finalizeRole_def Let_def)

lemma finalizeLoop_Inr:
  "distinct roleNames \<Longrightarrow> set roleNames \<subseteq> dom m \<Longrightarrow>
   finalizeLoop Value held roleNames m =
     Inr (\<lambda>role. if role \<in> set roleNames
                 then map_option (finalizeRole Value (held role)) (m role)
                 else m role)"
proof (induction roleNames arbitrary: m)
  case Nil
  show ?case by simp
next
  case (Cons r rs)
  from Cons.prems obtain d where d: "m r = Some d" by auto
  from Cons.prems have r: "r \<notin> set rs" and rs: "distinct rs" by simp_all
  let ?m = "m(r \<mapsto> finalizeRole Value (held r) d)"
  have sub: "set rs \<subseteq> dom ?m" using Cons.prems by auto
  have "finalizeLoop Value held (r # rs) m = finalizeLoop Value held rs ?m"
    using d by simp
  also have "\<dots> = Inr (\<lambda>role. if role \<in> set rs
                 then map_option (finalizeRole Value (held role)) (?m role)
                 else ?m role)"
    using rs sub by (rule Cons.IH)
  also have "(\<lambda>role. if role \<in> set rs
                 then map_option (finalizeRole Value (held role)) (?m role)
                 else ?m role) =
             (\<lambda>role. if role \<in> set (r # rs)
                 then map_option (finalizeRole Value (held role)) (m role)
                 else m role)"
    using d r by (auto simp: fun_eq_iff)
  finally show ?case .
qed

lemma finalizeLoop_Inl:
  "\<not> set roleNames \<subseteq> dom m \<Longrightarrow> finalizeLoop Value held roleNames m = Inl NilDeref"
proof (induction roleNames arbitrary: m)
  case Nil
  then show ?case by simp
next
  case (Cons r rs)
  show ?case
  proof (cases "m r")
    case None
    then show ?thesis by simp
  next
    case (Some d)
    let ?m = "m(r \<mapsto> finalizeRole Value (held r) d)"
    from Some Cons.prems have "\<not> set rs \<subseteq> dom ?m" by auto
    then have "finalizeLoop Value held rs ?m = Inl NilDeref" by (rule Cons.IH)
    moreover have "finalizeLoop Value held (r # rs) m = finalizeLoop Value held rs ?m"
      using Some by simp
    ultimately show ?thesis by simp
  qed
qed

lemma nodeRoleAccumulate_Inr:
  assumes "nodeRoleAccumulate (Inr cs) ParseSelector rangeOrder = Inr (m, names)"
  obtains nodes where
    "Nodes_List cs = (nodes, None)"
    "nodeLoop cs ParseSelector rangeOrder 0 nodes (Map.empty, []) = Inr (m, names)"
    "set names = dom m" "distinct names"
proof -
  from assms obtain nodes where
    n: "Nodes_List cs = (nodes, None)" and
    l: "nodeLoop cs ParseSelector rangeOrder 0 nodes (Map.empty, []) = Inr (m, names)"
    by (auto simp: nodeRoleAccumulate_def split: prod.splits option.splits)
  have "namesInv (Map.empty, [])" by (simp add: namesInv_def)
  with l have "namesInv (m, names)" by (rule nodeLoop_namesInv)
  then have "set names = dom m" "distinct names" by (simp_all add: namesInv_def)
  with n l show ?thesis by (rule that)
qed

lemma nodeRoleRunE_Inr:
  assumes "nodeRoleRunE (Inr cs) ParseSelector Value held rangeOrder = Inr (data, roleNames)"
  obtains m names where
    "nodeRoleAccumulate (Inr cs) ParseSelector rangeOrder = Inr (m, names)"
    "data = (\<lambda>role. map_option (finalizeRole Value (held role)) (m role))"
    "roleNames = sort names"
proof -
  from assms obtain m names where
    a: "nodeRoleAccumulate (Inr cs) ParseSelector rangeOrder = Inr (m, names)" and
    f: "finalizeLoop Value held names m = Inr data" and
    s: "roleNames = sort names"
    by (auto simp: nodeRoleRunE_def split: prod.splits sum.splits)
  from a have inv: "set names = dom m" "distinct names"
    by (auto elim: nodeRoleAccumulate_Inr)
  then have "set names \<subseteq> dom m" by simp
  from finalizeLoop_Inr [OF inv(2) this, of Value held] f
  have "data = (\<lambda>role. if role \<in> set names
                       then map_option (finalizeRole Value (held role)) (m role)
                       else m role)"
    by simp
  with inv have "data = (\<lambda>role. map_option (finalizeRole Value (held role)) (m role))"
    by (auto simp: fun_eq_iff domIff)
  with a show ?thesis using s by (rule that)
qed

subsection \<open>Unfolding the model on concrete inputs\<close>

lemmas cluster_eval =
  clusterRunE_def clusterNode_def clusterCondition_def readyTrue_def addNodeQuantities_def
  clusterPod_def clusterContainer_def new_ClusterCapacityData_def nonTermSelector_def Let_def

lemmas nodeRole_eval =
  nodeRoleRunE_def nodeRoleAccumulate_def wrapInt_def nodeStep_def nodePodsQuery_def nodePodData_def nodePod_def nodeContainer_def
  nodeRoles_def labelRole_def HasPrefix_def TrimPrefix_def rolePrefix_def roleStep_def
  newRole_def newRoleCondition_def existingRole_def clusterCondition_def readyTrue_def
  addNodeQuantities_def addNodePods_def finalizeRole_def new_ClusterCapacityData_def Let_def

subsection \<open>The role loop in closed form\<close>

lemma roleStep_fst:
  "fst (roleStep node v r (m, names)) =
     m(r \<mapsto> (case m r of None \<Rightarrow> newRole node v | Some d \<Rightarrow> existingRole node v d))"
  by (cases "m r") (simp_all add: roleStep_def)

lemma roleStep_snd:
  "snd (roleStep node v r (m, names)) = names @ (if m r = None then [r] else [])"
  by (cases "m r") (simp_all add: roleStep_def)

lemma fold_roleStep_distinct:
  "distinct roles \<Longrightarrow>
   fold (roleStep node v) roles (m, names) =
     ((\<lambda>role. if role \<in> set roles
              then Some (case m role of None \<Rightarrow> newRole node v | Some d \<Rightarrow> existingRole node v d)
              else m role),
      names @ filter (\<lambda>role. m role = None) roles)"
proof (induction roles arbitrary: m names)
  case Nil
  show ?case by simp
next
  case (Cons r rs)
  then have r: "r \<notin> set rs" and rs: "distinct rs" by simp_all
  define x where "x = (case m r of None \<Rightarrow> newRole node v | Some d \<Rightarrow> existingRole node v d)"
  define m' where "m' = m(r \<mapsto> x)"
  define names' where "names' = names @ (if m r = None then [r] else [])"
  have step: "roleStep node v r (m, names) = (m', names')"
    using roleStep_fst [of node v r m names] roleStep_snd [of node v r m names]
    by (simp add: prod_eq_iff m'_def names'_def x_def)
  have other: "\<And>role. role \<in> set rs \<Longrightarrow> m' role = m role"
    using r by (auto simp: m'_def)
  have f: "filter (\<lambda>role. m' role = None) rs = filter (\<lambda>role. m role = None) rs"
    by (rule filter_cong) (simp_all add: other)
  have g: "(\<lambda>role. if role \<in> set rs
              then Some (case m' role of None \<Rightarrow> newRole node v | Some d \<Rightarrow> existingRole node v d)
              else m' role) =
           (\<lambda>role. if role \<in> set (r # rs)
              then Some (case m role of None \<Rightarrow> newRole node v | Some d \<Rightarrow> existingRole node v d)
              else m role)"
  proof
    fix role
    show "(if role \<in> set rs
              then Some (case m' role of None \<Rightarrow> newRole node v | Some d \<Rightarrow> existingRole node v d)
              else m' role) =
          (if role \<in> set (r # rs)
              then Some (case m role of None \<Rightarrow> newRole node v | Some d \<Rightarrow> existingRole node v d)
              else m role)"
    proof (cases "role \<in> set rs")
      case True
      then show ?thesis by (simp add: other)
    next
      case False
      then show ?thesis by (simp add: m'_def x_def)
    qed
  qed
  have "fold (roleStep node v) (r # rs) (m, names) = fold (roleStep node v) rs (m', names')"
    by (simp add: step)
  also have "\<dots> = ((\<lambda>role. if role \<in> set rs
              then Some (case m' role of None \<Rightarrow> newRole node v | Some d \<Rightarrow> existingRole node v d)
              else m' role),
      names' @ filter (\<lambda>role. m' role = None) rs)"
    by (rule Cons.IH [OF rs])
  also have "\<dots> = ((\<lambda>role. if role \<in> set (r # rs)
              then Some (case m role of None \<Rightarrow> newRole node v | Some d \<Rightarrow> existingRole node v d)
              else m role),
      names @ filter (\<lambda>role. m role = None) (r # rs))"
    unfolding f g by (simp add: names'_def)
  finally show ?case .
qed

lemma validRange_nodeRoles:
  assumes "validRange rangeOrder"
  shows "distinct (rangeOrder i (nodeRoles node))"
    and "set (rangeOrder i (nodeRoles node)) = set (nodeRoles node)"
    and "mset (rangeOrder i (nodeRoles node)) = mset (nodeRoles node)"
proof -
  from assms show m: "mset (rangeOrder i (nodeRoles node)) = mset (nodeRoles node)"
    by (simp add: validRange_def)
  from m show "set (rangeOrder i (nodeRoles node)) = set (nodeRoles node)"
    by (rule mset_eq_setD)
  from m have "distinct (rangeOrder i (nodeRoles node)) = distinct (nodeRoles node)"
    by (rule mset_eq_imp_distinct_iff)
  then show "distinct (rangeOrder i (nodeRoles node))"
    by (simp add: distinct_nodeRoles)
qed

lemma nodeStep_valid:
  assumes "validRange rangeOrder"
  shows "nodeStep cs ParseSelector (rangeOrder i) node (m, names) =
     (case nodePodsQuery cs ParseSelector node of
        Inl err \<Rightarrow> Inl err
      | Inr v \<Rightarrow> Inr (roleUpdate node v m,
                 names @ filter (\<lambda>role. m role = None) (rangeOrder i (nodeRoles node))))"
proof -
  note r = validRange_nodeRoles [OF assms, of i node]
  have "fold (roleStep node v) (rangeOrder i (nodeRoles node)) (m, names) =
          (roleUpdate node v m,
           names @ filter (\<lambda>role. m role = None) (rangeOrder i (nodeRoles node)))" for v
    unfolding fold_roleStep_distinct [OF r(1)] roleUpdate_def r(2) ..
  then show ?thesis
    by (cases "nodePodsQuery cs ParseSelector node") (simp_all add: nodeStep_def)
qed

subsection \<open>Per-role totals\<close>

lemma fold_nodeContainer:
  "fold nodeContainer cs v =
     v\<lparr>totalRequestsCPU := totalRequestsCPU v + sum_list (map Requests_Cpu cs),
       totalLimitssCPU := totalLimitssCPU v + sum_list (map Limits_Cpu cs),
       totalRequestsMemory := totalRequestsMemory v + sum_list (map Requests_Memory cs),
       totalLimitsMemory := totalLimitsMemory v + sum_list (map Limits_Memory cs)\<rparr>"
  by (induction cs arbitrary: v) (simp_all add: nodeContainer_def add.assoc)

lemma fold_nodePod:
  "fold nodePod pods v =
     v\<lparr>totalRequestsCPU := totalRequestsCPU v + podSum Requests_Cpu pods,
       totalLimitssCPU := totalLimitssCPU v + podSum Limits_Cpu pods,
       totalRequestsMemory := totalRequestsMemory v + podSum Requests_Memory pods,
       totalLimitsMemory := totalLimitsMemory v + podSum Limits_Memory pods\<rparr>"
  by (induction pods arbitrary: v)
     (simp_all add: nodePod_def fold_nodeContainer podSum_def add.assoc)

lemma nodePodsQuery_contribution:
  "nodePodsQuery cs ParseSelector node = Inr v \<Longrightarrow> nodeContribution cs ParseSelector node = v"
  by (auto simp: nodePodsQuery_def nodeContribution_def nodeSelector_def
        nodeNonTermSelector_def nonTermSelector_def nodePodData_def fold_nodePod Let_def
        split: sum.splits)

lemma fold_newRoleCondition:
  "fold newRoleCondition cs d =
     (if \<exists>c \<in> set cs. readyTrue c
      then d\<lparr>TotalReadyNodeCount := 1, TotalUnreadyNodeCount := 0\<rparr> else d)"
  by (induction cs arbitrary: d) (auto simp: newRoleCondition_def)

lemma fullTotals_newRole:
  "contribution node = v \<Longrightarrow> fullTotals contribution [node] (newRole node v)"
  by (simp add: fullTotals_def roleTotals_def allocatableTotals_def newRole_def Let_def fold_newRoleCondition addNodePods_def
        addNodeQuantities_def new_ClusterCapacityData_def)

lemma fullTotals_existingRole:
  "contribution node = v \<Longrightarrow> fullTotals contribution ms d \<Longrightarrow>
   fullTotals contribution (ms @ [node]) (existingRole node v d)"
  by (simp add: fullTotals_def roleTotals_def allocatableTotals_def existingRole_def Let_def fold_clusterCondition addNodePods_def
        addNodeQuantities_def)

lemma members_snoc:
  "members role (nodes @ [node]) =
     members role nodes @ (if role \<in> set (nodeRoles node) then [node] else [])"
  by (simp add: members_def)

lemma totalsInv_roleUpdate:
  assumes "totalsInv contribution nodes m" and "contribution node = v"
  shows "totalsInv contribution (nodes @ [node]) (roleUpdate node v m)"
  unfolding totalsInv_def
proof
  fix role
  from assms(1) have inv:
    "case m role of None \<Rightarrow> members role nodes = []
     | Some d \<Rightarrow> fullTotals contribution (members role nodes) d"
    by (simp add: totalsInv_def)
  show "case roleUpdate node v m role of
          None \<Rightarrow> members role (nodes @ [node]) = []
        | Some d \<Rightarrow> fullTotals contribution (members role (nodes @ [node])) d"
  proof (cases "role \<in> set (nodeRoles node)")
    case False
    then have "members role (nodes @ [node]) = members role nodes"
      by (simp add: members_snoc)
    with False show ?thesis using inv by (cases "m role") (simp_all add: roleUpdate_def)
  next
    case True
    show ?thesis
    proof (cases "m role")
      case None
      with inv have "members role nodes = []" by simp
      with True None show ?thesis
        using fullTotals_newRole [of contribution node v] assms(2)
        by (simp add: roleUpdate_def members_snoc)
    next
      case (Some d)
      with inv have "fullTotals contribution (members role nodes) d" by simp
      from fullTotals_existingRole [of contribution node v "members role nodes" d] assms(2) this
        True Some show ?thesis
        by (simp add: roleUpdate_def members_snoc)
    qed
  qed
qed

lemma nodeLoop_totalsInv:
  assumes "validRange rangeOrder"
  shows "nodeLoop cs ParseSelector rangeOrder i nodes (m, names) = Inr (m', names') \<Longrightarrow>
     totalsInv (nodeContribution cs ParseSelector) done m \<Longrightarrow>
     totalsInv (nodeContribution cs ParseSelector) (done @ nodes) m'"
proof (induction nodes arbitrary: i m names "done")
  case Nil
  then show ?case by simp
next
  case (Cons node nodes)
  from Cons.prems(1) obtain v where
    q: "nodePodsQuery cs ParseSelector node = Inr v" and
    rest: "nodeLoop cs ParseSelector rangeOrder (Suc i) nodes
             (roleUpdate node v m,
              names @ filter (\<lambda>role. m role = None) (rangeOrder i (nodeRoles node))) =
           Inr (m', names')"
    by (auto simp: nodeStep_valid [OF assms] split: sum.splits)
  from q have "nodeContribution cs ParseSelector node = v"
    by (rule nodePodsQuery_contribution)
  with Cons.prems(2)
  have "totalsInv (nodeContribution cs ParseSelector) (done @ [node]) (roleUpdate node v m)"
    by (rule totalsInv_roleUpdate)
  from Cons.IH [OF rest this] show ?case by simp
qed

lemma roleTotals_finalizeRole:
  "roleTotals contribution ms (finalizeRole Value held d) = roleTotals contribution ms d"
  by (simp add: roleTotals_def finalizeRole_def Let_def)

lemma members_Cons:
  "members role (node # nodes) =
     (if role \<in> set (nodeRoles node) then [node] else []) @ members role nodes"
  by (simp add: members_def)

lemma count_one_role:
  assumes "finite R" and "set (nodeRoles node) \<subseteq> R"
  shows "(\<Sum>role\<in>R. if role \<in> set (nodeRoles node) then 1 else 0) =
           int (length (nodeRoles node))"
proof -
  have "R \<inter> {role. role \<in> set (nodeRoles node)} = set (nodeRoles node)"
    using assms(2) by auto
  then have "(\<Sum>role\<in>R. if role \<in> set (nodeRoles node) then 1 else (0::int)) =
             int (card (set (nodeRoles node)))"
    using assms(1) by (simp add: sum.If_cases)
  then show ?thesis by (simp add: distinct_card distinct_nodeRoles)
qed

lemma sum_members:
  assumes "finite R"
  shows "(\<forall>node \<in> set nodes. set (nodeRoles node) \<subseteq> R) \<Longrightarrow>
     (\<Sum>role\<in>R. int (length (members role nodes))) =
       sum_list (map (\<lambda>node. int (length (nodeRoles node))) nodes)"
proof (induction nodes)
  case Nil
  show ?case by (simp add: members_def)
next
  case (Cons node nodes)
  have "(\<Sum>role\<in>R. int (length (members role (node # nodes)))) =
        (\<Sum>role\<in>R. (if role \<in> set (nodeRoles node) then 1 else 0)
                     + int (length (members role nodes)))"
    by (rule sum.cong) (simp_all add: members_Cons)
  also have "\<dots> = (\<Sum>role\<in>R. if role \<in> set (nodeRoles node) then 1 else 0)
                   + (\<Sum>role\<in>R. int (length (members role nodes)))"
    by (rule sum.distrib)
  also have "\<dots> = int (length (nodeRoles node))
                   + sum_list (map (\<lambda>node. int (length (nodeRoles node))) nodes)"
    using Cons count_one_role [OF assms, of node] by simp
  finally show ?case by simp
qed

lemma totalsInv_dom:
  assumes "totalsInv contribution nodes m" and "node \<in> set nodes"
  shows "set (nodeRoles node) \<subseteq> dom m"
proof
  fix role
  assume r: "role \<in> set (nodeRoles node)"
  with assms(2) have "node \<in> set (members role nodes)" by (simp add: members_def)
  then have "members role nodes \<noteq> []" by auto
  with assms(1) show "role \<in> dom m"
    by (auto simp: totalsInv_def split: option.splits dest!: spec [of _ role])
qed

lemma totalsInv_empty: "totalsInv contribution [] Map.empty"
  by (simp add: totalsInv_def members_def)

subsection \<open>Independence of the visiting orders\<close>

lemma sameNode_fields:
  assumes "sameNode node1 node2"
  shows "Name node2 = Name node1" "Conditions node2 = Conditions node1"
    "Unschedulable node2 = Unschedulable node1"
    "Capacity_Pods node2 = Capacity_Pods node1" "Capacity_Cpu node2 = Capacity_Cpu node1"
    "Capacity_Memory node2 = Capacity_Memory node1"
    "Allocatable_Pods node2 = Allocatable_Pods node1"
    "Allocatable_Cpu node2 = Allocatable_Cpu node1"
    "Allocatable_Memory node2 = Allocatable_Memory node1"
proof -
  from assms have e: "node2 = node1\<lparr>Labels := Labels node2\<rparr>" by (simp add: sameNode_def)
  show "Name node2 = Name node1" by (subst e) simp
  show "Conditions node2 = Conditions node1" by (subst e) simp
  show "Unschedulable node2 = Unschedulable node1" by (subst e) simp
  show "Capacity_Pods node2 = Capacity_Pods node1" by (subst e) simp
  show "Capacity_Cpu node2 = Capacity_Cpu node1" by (subst e) simp
  show "Capacity_Memory node2 = Capacity_Memory node1" by (subst e) simp
  show "Allocatable_Pods node2 = Allocatable_Pods node1" by (subst e) simp
  show "Allocatable_Cpu node2 = Allocatable_Cpu node1" by (subst e) simp
  show "Allocatable_Memory node2 = Allocatable_Memory node1" by (subst e) simp
qed

lemma sameNode_roles:
  assumes "sameNode node1 node2"
  shows "set (nodeRoles node2) = set (nodeRoles node1)"
    and "mset (nodeRoles node2) = mset (nodeRoles node1)"
proof -
  from assms have "mset (Labels node1) = mset (Labels node2)" by (simp add: sameNode_def)
  then have "set (Labels node1) = set (Labels node2)" by (rule mset_eq_setD)
  then have "specRoles (Labels node1) = specRoles (Labels node2)" by (simp add: specRoles_def)
  then show s: "set (nodeRoles node2) = set (nodeRoles node1)" by (simp add: set_nodeRoles)
  with distinct_nodeRoles [of node1] distinct_nodeRoles [of node2]
  show "mset (nodeRoles node2) = mset (nodeRoles node1)"
    by (simp add: set_eq_iff_mset_eq_distinct)
qed

lemma sameNode_clusterNode: "sameNode node1 node2 \<Longrightarrow> clusterNode node2 = clusterNode node1"
  by (rule ext) (simp add: clusterNode_def addNodeQuantities_def sameNode_fields)

lemma sameNode_newRole: "sameNode node1 node2 \<Longrightarrow> newRole node2 v = newRole node1 v"
  by (simp add: newRole_def addNodeQuantities_def sameNode_fields)

lemma sameNode_existingRole:
  "sameNode node1 node2 \<Longrightarrow> existingRole node2 v d = existingRole node1 v d"
  by (simp add: existingRole_def addNodeQuantities_def sameNode_fields)

lemma sameNode_roleUpdate:
  assumes "sameNode node1 node2"
  shows "roleUpdate node2 v m = roleUpdate node1 v m"
  unfolding roleUpdate_def sameNode_roles(1) [OF assms] sameNode_newRole [OF assms]
    sameNode_existingRole [OF assms] ..

lemma sameNode_nodePodsQuery:
  assumes "sameNode node1 node2" and "Pods_List cs1 = Pods_List cs2"
  shows "nodePodsQuery cs2 ParseSelector node2 = nodePodsQuery cs1 ParseSelector node1"
  unfolding nodePodsQuery_def sameNode_fields(1) [OF assms(1)] assms(2) ..

lemma fold_clusterNode_same:
  "list_all2 sameNode nodes1 nodes2 \<Longrightarrow> fold clusterNode nodes2 d = fold clusterNode nodes1 d"
  by (induction arbitrary: d rule: list_all2_induct) (simp_all add: sameNode_clusterNode)

lemma clusterRunE_same:
  assumes "sameState cs1 cs2"
  shows "clusterRunE (Inr cs2) ParseSelector = clusterRunE (Inr cs1) ParseSelector"
proof -
  obtain nodes1 e1 where n1: "Nodes_List cs1 = (nodes1, e1)" by (cases "Nodes_List cs1")
  obtain nodes2 e2 where n2: "Nodes_List cs2 = (nodes2, e2)" by (cases "Nodes_List cs2")
  from assms n1 n2 have "list_all2 sameNode nodes1 nodes2" and e: "e2 = e1"
    and p: "Pods_List cs2 = Pods_List cs1"
    by (simp_all add: sameState_def)
  then have f: "fold clusterNode nodes2 new_ClusterCapacityData =
             fold clusterNode nodes1 new_ClusterCapacityData"
    by (simp add: fold_clusterNode_same)
  show ?thesis
  proof (cases e1)
    case (Some err)
    then show ?thesis by (simp add: clusterRunE_def n1 n2 e)
  next
    case None
    show ?thesis
    proof (cases "ParseSelector nonTermSelector")
      case (Inl err)
      with None show ?thesis by (simp add: clusterRunE_def n1 n2 e Let_def)
    next
      case (Inr fieldSelector)
      with None show ?thesis by (simp add: clusterRunE_def n1 n2 e f p Let_def)
    qed
  qed
qed

lemma nodeLoop_same:
  assumes "validRange rangeOrder1" and "validRange rangeOrder2"
    and "Pods_List cs1 = Pods_List cs2"
  shows "list_all2 sameNode nodes1 nodes2 \<Longrightarrow> mset names1 = mset names2 \<Longrightarrow>
     (case nodeLoop cs1 ParseSelector rangeOrder1 i nodes1 (m, names1) of
        Inl err \<Rightarrow> nodeLoop cs2 ParseSelector rangeOrder2 j nodes2 (m, names2) = Inl err
      | Inr st1 \<Rightarrow>
          (\<exists>names2'. nodeLoop cs2 ParseSelector rangeOrder2 j nodes2 (m, names2) =
                        Inr (fst st1, names2') \<and> mset (snd st1) = mset names2'))"
proof (induction arbitrary: i j m names1 names2 rule: list_all2_induct)
  case Nil
  then show ?case by simp
next
  case (Cons node1 nodes1 node2 nodes2)
  have q: "nodePodsQuery cs2 ParseSelector node2 = nodePodsQuery cs1 ParseSelector node1"
    using Cons.hyps(1) assms(3) by (rule sameNode_nodePodsQuery)
  show ?case
  proof (cases "nodePodsQuery cs1 ParseSelector node1")
    case (Inl err)
    with q show ?thesis
      by (simp add: nodeStep_valid [OF assms(1)] nodeStep_valid [OF assms(2)])
  next
    case (Inr v)
    let ?n1 = "names1 @ filter (\<lambda>role. m role = None) (rangeOrder1 i (nodeRoles node1))"
    let ?n2 = "names2 @ filter (\<lambda>role. m role = None) (rangeOrder2 j (nodeRoles node2))"
    have "mset (rangeOrder1 i (nodeRoles node1)) = mset (rangeOrder2 j (nodeRoles node2))"
      using validRange_nodeRoles(3) [OF assms(1), of i node1]
        validRange_nodeRoles(3) [OF assms(2), of j node2] sameNode_roles(2) [OF Cons.hyps(1)]
      by simp
    then have "mset (filter (\<lambda>role. m role = None) (rangeOrder1 i (nodeRoles node1))) =
               mset (filter (\<lambda>role. m role = None) (rangeOrder2 j (nodeRoles node2)))"
      by simp
    with Cons.prems have n: "mset ?n1 = mset ?n2" by simp
    have s1: "nodeLoop cs1 ParseSelector rangeOrder1 i (node1 # nodes1) (m, names1) =
          nodeLoop cs1 ParseSelector rangeOrder1 (Suc i) nodes1 (roleUpdate node1 v m, ?n1)"
      using Inr by (simp add: nodeStep_valid [OF assms(1)])
    have s2: "nodeLoop cs2 ParseSelector rangeOrder2 j (node2 # nodes2) (m, names2) =
          nodeLoop cs2 ParseSelector rangeOrder2 (Suc j) nodes2 (roleUpdate node1 v m, ?n2)"
      using Inr q
      by (simp add: nodeStep_valid [OF assms(2)] sameNode_roleUpdate [OF Cons.hyps(1)])
    show ?thesis
      unfolding s1 s2 using n by (rule Cons.IH)
  qed
qed

lemma finalizeLoop_set:
  assumes "set names1 = set names2" and "distinct names1" and "distinct names2"
  shows "finalizeLoop Value held names1 m = finalizeLoop Value held names2 m"
proof (cases "set names1 \<subseteq> dom m")
  case True
  with assms have "set names2 \<subseteq> dom m" by simp
  from finalizeLoop_Inr [OF assms(2) True, of Value held]
    finalizeLoop_Inr [OF assms(3) this, of Value held]
  show ?thesis by (simp add: assms(1))
next
  case False
  with assms have "\<not> set names2 \<subseteq> dom m" by simp
  with False show ?thesis by (simp add: finalizeLoop_Inl)
qed

lemma nodeRoleAccumulate_same:
  assumes "validRange rangeOrder1" and "validRange rangeOrder2" and "sameState cs1 cs2"
  shows "case nodeRoleAccumulate (Inr cs1) ParseSelector rangeOrder1 of
           Inl err \<Rightarrow> nodeRoleAccumulate (Inr cs2) ParseSelector rangeOrder2 = Inl err
         | Inr st1 \<Rightarrow>
             (\<exists>names2. nodeRoleAccumulate (Inr cs2) ParseSelector rangeOrder2 =
                          Inr (fst st1, names2) \<and> mset (snd st1) = mset names2)"
proof -
  obtain nodes1 e1 where n1: "Nodes_List cs1 = (nodes1, e1)" by (cases "Nodes_List cs1")
  obtain nodes2 e2 where n2: "Nodes_List cs2 = (nodes2, e2)" by (cases "Nodes_List cs2")
  from assms(3) n1 n2 have l: "list_all2 sameNode nodes1 nodes2" and e: "e2 = e1"
    and p: "Pods_List cs1 = Pods_List cs2"
    by (simp_all add: sameState_def)
  show ?thesis
  proof (cases e1)
    case (Some err)
    then show ?thesis by (simp add: nodeRoleAccumulate_def n1 n2 e)
  next
    case None
    have a1: "nodeRoleAccumulate (Inr cs1) ParseSelector rangeOrder1 =
        nodeLoop cs1 ParseSelector rangeOrder1 0 nodes1 (Map.empty, [])"
      by (simp add: nodeRoleAccumulate_def n1 None)
    have a2: "nodeRoleAccumulate (Inr cs2) ParseSelector rangeOrder2 =
        nodeLoop cs2 ParseSelector rangeOrder2 0 nodes2 (Map.empty, [])"
      by (simp add: nodeRoleAccumulate_def n2 e None)
    have "mset ([] :: string list) = mset []" by simp
    with l show ?thesis
      unfolding a1 a2 by (rule nodeLoop_same [OF assms(1,2) p])
  qed
qed

lemma nodeRoleRunE_same:
  assumes "validRange rangeOrder1" and "validRange rangeOrder2" and "sameState cs1 cs2"
  shows "nodeRoleRunE (Inr cs1) ParseSelector Value held rangeOrder1 =
         nodeRoleRunE (Inr cs2) ParseSelector Value held rangeOrder2"
proof (cases "nodeRoleAccumulate (Inr cs1) ParseSelector rangeOrder1")
  case (Inl err)
  with nodeRoleAccumulate_same [OF assms, of ParseSelector]
  have "nodeRoleAccumulate (Inr cs2) ParseSelector rangeOrder2 = Inl err" by simp
  with Inl show ?thesis by (simp add: nodeRoleRunE_def)
next
  case (Inr st1)
  obtain m names1 where st1: "st1 = (m, names1)" by (cases st1)
  from nodeRoleAccumulate_same [OF assms, of ParseSelector] Inr st1 obtain names2 where
    a2: "nodeRoleAccumulate (Inr cs2) ParseSelector rangeOrder2 = Inr (m, names2)"
    and ms: "mset names1 = mset names2"
    by auto
  from Inr st1 have d1: "distinct names1" by (auto elim: nodeRoleAccumulate_Inr)
  from a2 have d2: "distinct names2" by (auto elim: nodeRoleAccumulate_Inr)
  from ms have "set names1 = set names2" by (rule mset_eq_setD)
  then have f: "finalizeLoop Value held names1 m = finalizeLoop Value held names2 m"
    using d1 d2 by (rule finalizeLoop_set)
  have "mset (sort names2) = mset names1" using ms by simp
  then have s: "sort names1 = sort names2"
    by (rule properties_for_sort) simp
  have run1: "nodeRoleRunE (Inr cs1) ParseSelector Value held rangeOrder1 =
      (case finalizeLoop Value held names1 m of
         Inl err \<Rightarrow> Inl err
       | Inr data \<Rightarrow> Inr (data, sort names1))"
    by (simp add: nodeRoleRunE_def Inr st1)
  have run2: "nodeRoleRunE (Inr cs2) ParseSelector Value held rangeOrder2 =
      (case finalizeLoop Value held names2 m of
         Inl err \<Rightarrow> Inl err
       | Inr data \<Rightarrow> Inr (data, sort names2))"
    by (simp add: nodeRoleRunE_def a2)
  show ?thesis unfolding run1 run2 f s ..
qed

section \<open>Error paths\<close>

lemma clusterRunE_clientset_error:
  "clusterRunE (Inl err) ParseSelector = Inl (Wrap err ''failed to create clientset'')"
  by (simp add: clusterRunE_def)

lemma clusterRunE_nodes_error:
  "Nodes_List cs = (nodes, Some err) \<Longrightarrow>
   clusterRunE (Inr cs) ParseSelector = Inl (Wrap err ''failed to list nodes'')"
  by (simp add: clusterRunE_def)

lemma nodeRoleRunE_clientset_error:
  "nodeRoleRunE (Inl err) ParseSelector Value held rangeOrder =
     Inl (Wrap err ''failed to create clientset'')"
  by (simp add: nodeRoleRunE_def nodeRoleAccumulate_def)

lemma nodeRoleRunE_nodes_error:
  "Nodes_List cs = (nodes, Some err) \<Longrightarrow>
   nodeRoleRunE (Inr cs) ParseSelector Value held rangeOrder =
     Inl (Wrap err ''failed to list nodes'')"
  by (simp add: nodeRoleRunE_def nodeRoleAccumulate_def)

lemma clusterRunE_selector_error:
  "Nodes_List cs = (nodes, None) \<Longrightarrow> ParseSelector nonTermSelector = Inl err \<Longrightarrow>
   clusterRunE (Inr cs) ParseSelector = Inl (Wrap err ''failed to create fieldSelector'')"
  by (simp add: clusterRunE_def Let_def)

lemma nodePodsQuery_error:
  "nodePodsQuery cs ParseSelector node = Inl err \<Longrightarrow>
   \<exists>e. err = Wrap e ''failed to create fieldSelector''"
  by (auto simp: nodePodsQuery_def Let_def split: sum.splits)

lemma nodeLoop_error:
  "nodeLoop cs ParseSelector rangeOrder i nodes st = Inl err \<Longrightarrow>
   \<exists>e. err = Wrap e ''failed to create fieldSelector''"
proof (induction nodes arbitrary: i st)
  case Nil
  then show ?case by simp
next
  case (Cons node nodes)
  show ?case
  proof (cases "nodeStep cs ParseSelector (rangeOrder i) node st")
    case (Inl e)
    with Cons.prems have "e = err" by simp
    with Inl have "nodePodsQuery cs ParseSelector node = Inl err"
      by (auto simp: nodeStep_def Let_def split: sum.splits)
    then show ?thesis by (rule nodePodsQuery_error)
  next
    case (Inr st')
    with Cons.prems
    have "nodeLoop cs ParseSelector rangeOrder (Suc i) nodes st' = Inl err" by simp
    then show ?thesis by (rule Cons.IH)
  qed
qed

text \<open>The finalization loop never meets a role name that is not in the map.\<close>

lemma nodeRoleAccumulate_error:
  assumes "nodeRoleAccumulate CreateClientSet ParseSelector rangeOrder = Inl err"
  shows "\<exists>e msg. err = Wrap e msg"
proof (cases CreateClientSet)
  case (Inl e)
  with assms show ?thesis by (auto simp: nodeRoleAccumulate_def)
next
  case (Inr cs)
  obtain nodes e where n: "Nodes_List cs = (nodes, e)" by (cases "Nodes_List cs")
  show ?thesis
  proof (cases e)
    case (Some e')
    with assms Inr n show ?thesis by (auto simp: nodeRoleAccumulate_def)
  next
    case None
    with assms Inr n
    have "nodeLoop cs ParseSelector rangeOrder 0 nodes (Map.empty, []) = Inl err"
      by (simp add: nodeRoleAccumulate_def)
    then show ?thesis using nodeLoop_error by blast
  qed
qed

lemma nodeRoleRunE_no_panic:
  "nodeRoleRunE (Inr cs) ParseSelector Value held rangeOrder \<noteq> Inl NilDeref"
proof (cases "nodeRoleAccumulate (Inr cs) ParseSelector rangeOrder")
  case (Inl err)
  then obtain e msg where "err = Wrap e msg" using nodeRoleAccumulate_error by blast
  with Inl show ?thesis by (simp add: nodeRoleRunE_def)
next
  case (Inr st)
  obtain m names where st: "st = (m, names)" by (cases st)
  from Inr st have "set names = dom m" "distinct names"
    by (auto elim: nodeRoleAccumulate_Inr)
  then have "finalizeLoop Value held names m =
      Inr (\<lambda>role. if role \<in> set names
                  then map_option (finalizeRole Value (held role)) (m role)
                  else m role)"
    by (simp add: finalizeLoop_Inr)
  with Inr st show ?thesis by (simp add: nodeRoleRunE_def)
qed

section \<open>The unready count of the node-role command\<close>

lemma existingRole_unready:
  "TotalUnreadyNodeCount (existingRole node v d) =
     TotalNodeCount (existingRole node v d) - TotalReadyNodeCount (existingRole node v d)"
  by (simp add: existingRole_def Let_def fold_clusterCondition addNodePods_def
        addNodeQuantities_def)

lemma newRole_not_ready:
  "\<not> (\<exists>c \<in> set (Conditions node). readyTrue c) \<Longrightarrow>
   TotalNodeCount (newRole node v) = 1 \<and> TotalReadyNodeCount (newRole node v) = 0 \<and>
   TotalUnreadyNodeCount (newRole node v) = 0"
  by (simp add: newRole_def Let_def fold_newRoleCondition addNodePods_def
        addNodeQuantities_def new_ClusterCapacityData_def)

section \<open>The claims\<close>

text \<open>
  C1. Every failed query to the cluster API is to abort the report with a wrapped error,
  and no record is to be rendered when a pod listing fails. The node listing is checked
  (\<open>clusterRunE_nodes_error\<close>, \<open>nodeRoleRunE_nodes_error\<close>), the pod listings are not:
  with a node listing that succeeds and pod listings that all fail, the cluster command
  renders a record with zero pods and returns nil, and so does the node-role command.
\<close>

theorem pod_listing_errors_dropped:
  "clusterRunE (Inr podsFailClient) Inr =
     Inr (exampleRecord\<lparr>TotalPodCount := 0, TotalNonTermPodCount := 0, TotalRequestsCPU := 0,
            TotalLimitsCPU := 0, TotalRequestsMemory := 0, TotalLimitsMemory := 0\<rparr>)
   \<and> nodeRoleRunE (Inr podsFailClient) Inr exampleValue heldAsInt64 (\<lambda>i roles. roles) =
     Inr ([''<none>'' \<mapsto>
            exampleRecord\<lparr>TotalPodCount := 0, TotalNonTermPodCount := 0, TotalRequestsCPU := 0,
              TotalLimitsCPU := 0, TotalRequestsMemory := 0, TotalLimitsMemory := 0,
              TotalAvailablePods := 110, TotalAvailableCPU := 7 / 2,
              TotalAvailableMemory := 7516192768\<rparr>],
          [''<none>''])"
  by (simp add: cluster_eval nodeRole_eval podsFailClient_def exampleNode_def exampleRecord_def
        exampleValue_def heldAsInt64_def)

text \<open>
  C2. In every record produced, the unready count is to equal the node count minus the
  ready count. The cluster command and the branch for a known role compute it so
  (\<open>cluster_unready\<close>, \<open>existingRole_unready\<close>); the branch for a new role leaves
  it at zero (\<open>newRole_not_ready\<close>). For a single node
  without labels and without a Ready condition, the record of the role
  \<^verbatim>\<open><none>\<close> has one node, no ready node, and no unready node.
\<close>

theorem new_role_unready_left_zero:
  "nodeRoleRunE (Inr (exampleClient [exampleNode\<lparr>Conditions := []\<rparr>] [examplePod])) Inr
     exampleValue heldAsInt64 (\<lambda>i roles. roles) =
     Inr ([''<none>'' \<mapsto>
            exampleRecord\<lparr>TotalReadyNodeCount := 0, TotalAvailablePods := 109,
              TotalAvailableCPU := 5 / 2, TotalAvailableMemory := 5368709120\<rparr>],
          [''<none>''])
   \<and> TotalNodeCount (exampleRecord\<lparr>TotalReadyNodeCount := 0\<rparr>) = 1
   \<and> TotalReadyNodeCount (exampleRecord\<lparr>TotalReadyNodeCount := 0\<rparr>) = 0
   \<and> TotalUnreadyNodeCount (exampleRecord\<lparr>TotalReadyNodeCount := 0\<rparr>) = 0"
  by (simp add: nodeRole_eval exampleClient_def exampleNode_def examplePod_def
        exampleRecord_def exampleValue_def heldAsInt64_def)

text \<open>
  C3. The cluster command is to compute the available pods, CPU and memory before it
  hands the record to the renderer. It never assigns these fields
  (\<open>cluster_available_untouched\<close>): for one node with 3.5 allocatable CPU and 7Gi of
  allocatable memory and one pod requesting 1 CPU and 2Gi, the rendered record has
  available CPU 0 and available memory 0, not 2.5 and 5Gi.
\<close>

theorem cluster_available_left_zero:
  "clusterRunE (Inr (exampleClient [exampleNode] [examplePod])) Inr = Inr exampleRecord
   \<and> TotalAllocatableCPU exampleRecord - TotalRequestsCPU exampleRecord = 5 / 2
   \<and> TotalAllocatableMemory exampleRecord - TotalRequestsMemory exampleRecord = 5368709120
   \<and> TotalAvailableCPU exampleRecord = 0
   \<and> TotalAvailableMemory exampleRecord = 0
   \<and> TotalAvailablePods exampleRecord = 0"
  by (simp add: cluster_eval exampleClient_def exampleNode_def examplePod_def exampleRecord_def)

text \<open>
  C4. In every record that the node-role command renders, the available pods, CPU and
  memory are to be the exact, unclamped differences of the allocatable and the requested
  (or non-terminated) totals. Counterexample: one node with -2^63 allocatable pods and
  an allocatable CPU total of 12345678901234567890123, held behind a pointer to a big
  decimal, and one pod requesting 1 CPU. The difference of the pods leaves the range of
  \<^verbatim>\<open>int\<close> and wraps around to 2^63 - 1; the subtraction of the CPU request
  overwrites the allocatable CPU total of the record, so the rendered available CPU is
  not the rendered allocatable CPU minus the requests.
\<close>

theorem node_role_available_exact_counterexample:
  "nodeRoleRunE
     (Inr (exampleClient
            [exampleNode\<lparr>Allocatable_Pods := - 9223372036854775808,
               Allocatable_Cpu := 12345678901234567890123\<rparr>] [examplePod]))
     Inr exampleValue cpuHeldAsDec (\<lambda>i roles. roles) =
     Inr ([''<none>'' \<mapsto> overflowRecord], [''<none>''])
   \<and> TotalAvailablePods overflowRecord \<noteq>
       exampleValue (TotalAllocatablePods overflowRecord) - TotalNonTermPodCount overflowRecord
   \<and> \<not> TotalAvailablePods overflowRecord < 0
   \<and> TotalAvailableCPU overflowRecord \<noteq>
       TotalAllocatableCPU overflowRecord - TotalRequestsCPU overflowRecord"
  by (simp add: nodeRole_eval exampleClient_def exampleNode_def examplePod_def
        exampleRecord_def overflowRecord_def exampleValue_def cpuHeldAsDec_def)

text \<open>
  C4, amended. In every record that the node-role command renders, the available pods
  are \<^verbatim>\<open>int(q.Value())\<close> of the allocatable pods minus the number of
  non-terminated pods, taken in Go's \<^verbatim>\<open>int\<close>: the exact difference whenever it
  lies in the 64-bit range. The available CPU and memory are the allocatable totals
  with which the record entered the finalization loop minus the requested totals,
  exactly; when the allocatable total is held as a scaled 64-bit integer, this is the
  allocatable field of the rendered record minus its requested field. Nothing is
  clamped at zero.
\<close>

theorem node_role_available_derived:
  assumes "nodeRoleAccumulate (Inr cs) ParseSelector rangeOrder = Inr (m, names)"
    and "nodeRoleRunE (Inr cs) ParseSelector Value held rangeOrder = Inr (data, roleNames)"
    and "data role = Some d"
  shows "TotalAvailablePods d =
           wrapInt (Value (TotalAllocatablePods d) - TotalNonTermPodCount d)
       \<and> (- (2 ^ 63) \<le> Value (TotalAllocatablePods d) - TotalNonTermPodCount d
            \<and> Value (TotalAllocatablePods d) - TotalNonTermPodCount d < 2 ^ 63
          \<longrightarrow> TotalAvailablePods d = Value (TotalAllocatablePods d) - TotalNonTermPodCount d)
       \<and> (\<exists>d0. m role = Some d0
             \<and> TotalAvailableCPU d = TotalAllocatableCPU d0 - TotalRequestsCPU d
             \<and> TotalAvailableMemory d = TotalAllocatableMemory d0 - TotalRequestsMemory d)
       \<and> (\<not> fst (held role)
          \<longrightarrow> TotalAvailableCPU d = TotalAllocatableCPU d - TotalRequestsCPU d)
       \<and> (\<not> snd (held role)
          \<longrightarrow> TotalAvailableMemory d = TotalAllocatableMemory d - TotalRequestsMemory d)"
proof -
  from assms(2) obtain m' names' where
    a: "nodeRoleAccumulate (Inr cs) ParseSelector rangeOrder = Inr (m', names')" and
    d: "data = (\<lambda>role. map_option (finalizeRole Value (held role)) (m' role))"
    by (rule nodeRoleRunE_Inr)
  from a assms(1) have "m' = m" by simp
  with d assms(3) obtain d0 where d0: "m role = Some d0"
    and fin: "d = finalizeRole Value (held role) d0"
    by auto
  have pods: "TotalAvailablePods d =
      wrapInt (Value (TotalAllocatablePods d) - TotalNonTermPodCount d)"
    by (simp add: fin finalizeRole_def Let_def)
  have cpu: "TotalAvailableCPU d = TotalAllocatableCPU d0 - TotalRequestsCPU d"
    by (simp add: fin finalizeRole_def Let_def)
  have memory: "TotalAvailableMemory d = TotalAllocatableMemory d0 - TotalRequestsMemory d"
    by (simp add: fin finalizeRole_def Let_def)
  have cpu': "TotalAllocatableCPU d = TotalAllocatableCPU d0" if "\<not> fst (held role)"
    using that by (simp add: fin finalizeRole_def Let_def)
  have memory': "TotalAllocatableMemory d = TotalAllocatableMemory d0" if "\<not> snd (held role)"
    using that by (simp add: fin finalizeRole_def Let_def)
  from pods cpu memory cpu' memory' d0 show ?thesis
    by (auto simp: wrapInt_id)
qed

text \<open>
  An overcommitted node: one allocatable pod and one allocatable CPU, two pods
  requesting 1 CPU each. The three available fields are negative.
\<close>

theorem node_role_available_derived_witness:
  "case nodeRoleRunE
          (Inr (exampleClient
                 [exampleNode\<lparr>Allocatable_Pods := 1, Allocatable_Cpu := 1,
                    Allocatable_Memory := 1024\<rparr>] [examplePod, examplePod]))
          Inr exampleValue heldAsInt64 (\<lambda>i roles. roles) of
     Inl err \<Rightarrow> False
   | Inr (data, roleNames) \<Rightarrow>
       (case data ''<none>'' of
          None \<Rightarrow> False
        | Some d \<Rightarrow>
            TotalAvailablePods d = exampleValue (TotalAllocatablePods d) - TotalNonTermPodCount d
          \<and> TotalAvailableCPU d = TotalAllocatableCPU d - TotalRequestsCPU d
          \<and> TotalAvailableMemory d = TotalAllocatableMemory d - TotalRequestsMemory d
          \<and> TotalAvailablePods d = - 1 \<and> TotalAvailableCPU d = - 1
          \<and> TotalAvailableMemory d = - 4294966272)"
proof -
  let ?cs = "exampleClient
                 [exampleNode\<lparr>Allocatable_Pods := 1, Allocatable_Cpu := 1,
                    Allocatable_Memory := 1024\<rparr>] [examplePod, examplePod]"
  let ?run = "nodeRoleRunE (Inr ?cs) Inr exampleValue heldAsInt64 (\<lambda>i roles. roles)"
  have "\<exists>m names. nodeRoleAccumulate (Inr ?cs) Inr (\<lambda>i roles. roles) = Inr (m, names)"
    by (simp add: nodeRole_eval exampleClient_def)
  then obtain m names where
    acc: "nodeRoleAccumulate (Inr ?cs) Inr (\<lambda>i roles. roles) = Inr (m, names)"
    by blast
  have "\<exists>data d. ?run = Inr (data, [''<none>'']) \<and> data ''<none>'' = Some d
          \<and> TotalAllocatablePods d = 1 \<and> TotalNonTermPodCount d = 2
          \<and> TotalAllocatableCPU d = 1 \<and> TotalRequestsCPU d = 2
          \<and> TotalAllocatableMemory d = 1024 \<and> TotalRequestsMemory d = 4294967296"
    by (simp add: nodeRole_eval exampleClient_def exampleNode_def examplePod_def
          heldAsInt64_def)
  then obtain data d where run: "?run = Inr (data, [''<none>''])"
    and look: "data ''<none>'' = Some d"
    and vals: "TotalAllocatablePods d = 1" "TotalNonTermPodCount d = 2"
      "TotalAllocatableCPU d = 1" "TotalRequestsCPU d = 2"
      "TotalAllocatableMemory d = 1024" "TotalRequestsMemory d = 4294967296"
    by blast
  from node_role_available_derived [OF acc run look] show ?thesis
    by (simp add: run look vals exampleValue_def heldAsInt64_def wrapInt_def)
qed

text \<open>
  C5. The roles of a node are exactly the non-empty suffixes of its label keys that
  start with \<^verbatim>\<open>node-role.kubernetes.io/\<close> and the non-empty value of its label
  \<^verbatim>\<open>kubernetes.io/role\<close>, each once; when there is none, the node has the single
  role \<^verbatim>\<open><none>\<close>.
\<close>

theorem node_roles_from_labels:
  "set (nodeRoles node) =
     (if specRoles (Labels node) = {} then {''<none>''} else specRoles (Labels node))
   \<and> distinct (nodeRoles node)"
  by (simp add: set_nodeRoles distinct_nodeRoles)

theorem node_roles_from_labels_witness:
  "set (nodeRoles (exampleNode\<lparr>Labels := [(''node-role.kubernetes.io/master'', ''''),
       (''node-role.kubernetes.io/'', ''x''), (''kubernetes.io/role'', ''etcd''),
       (''app'', ''db'')]\<rparr>))
     = {''master'', ''etcd''}
   \<and> nodeRoles (exampleNode\<lparr>Labels := [(''app'', ''db''), (''kubernetes.io/role'', '''')]\<rparr>)
     = [''<none>'']"
  using node_roles_from_labels [of "exampleNode\<lparr>Labels :=
       [(''node-role.kubernetes.io/master'', ''''), (''node-role.kubernetes.io/'', ''x''),
        (''kubernetes.io/role'', ''etcd''), (''app'', ''db'')]\<rparr>"]
  by (simp add: nodeRoles_def labelRole_def HasPrefix_def TrimPrefix_def rolePrefix_def Let_def
        insert_commute)

text \<open>
  C6. When every pass visits each role of its node once, every node has a record under
  each of its roles, and the record with which a role leaves the node loop holds the
  whole contribution of each node with that role: the node count, the capacity and
  allocatable quantities, the pod counts of the node's two listings and the sums of the
  requests and limits over their containers. The rendered record holds the same totals
  (the allocatable CPU and memory aside, which the finalization loop may overwrite), and
  the node counts of the rendered roles add up to the sum over the nodes of the number
  of their roles.
\<close>

theorem node_role_full_contribution:
  assumes "validRange rangeOrder"
    and "nodeRoleAccumulate (Inr cs) ParseSelector rangeOrder = Inr (m, names)"
    and "nodeRoleRunE (Inr cs) ParseSelector Value held rangeOrder = Inr (data, roleNames)"
  shows "(\<forall>node \<in> set (fst (Nodes_List cs)). set (nodeRoles node) \<subseteq> dom m)
       \<and> dom data = dom m
       \<and> (\<forall>role d. m role = Some d \<longrightarrow>
             roleTotals (nodeContribution cs ParseSelector)
               (members role (fst (Nodes_List cs))) d
           \<and> allocatableTotals (members role (fst (Nodes_List cs))) d)
       \<and> (\<forall>role d. data role = Some d \<longrightarrow>
             roleTotals (nodeContribution cs ParseSelector)
               (members role (fst (Nodes_List cs))) d)
       \<and> sum_list (map (\<lambda>role. case data role of Some d \<Rightarrow> TotalNodeCount d | None \<Rightarrow> 0)
             roleNames) =
           sum_list (map (\<lambda>node. int (length (nodeRoles node))) (fst (Nodes_List cs)))"
proof -
  from assms(3) obtain m' names' where
    a: "nodeRoleAccumulate (Inr cs) ParseSelector rangeOrder = Inr (m', names')" and
    d: "data = (\<lambda>role. map_option (finalizeRole Value (held role)) (m' role))" and
    r: "roleNames = sort names'"
    by (rule nodeRoleRunE_Inr)
  from a assms(2) have same: "m' = m" "names' = names" by simp_all
  from assms(2) obtain nodes where
    n: "Nodes_List cs = (nodes, None)" and
    l: "nodeLoop cs ParseSelector rangeOrder 0 nodes (Map.empty, []) = Inr (m, names)" and
    s: "set names = dom m" and dn: "distinct names"
    by (rule nodeRoleAccumulate_Inr)
  let ?c = "nodeContribution cs ParseSelector"
  from nodeLoop_totalsInv [OF assms(1) l, of "[]"] totalsInv_empty
  have inv: "totalsInv ?c nodes m" by simp
  have dom: "dom data = dom m" by (auto simp: d same domIff)
  have A: "\<forall>node \<in> set nodes. set (nodeRoles node) \<subseteq> dom m"
    using totalsInv_dom [OF inv] by blast
  have B0: "fullTotals ?c (members role nodes) x" if "m role = Some x" for role x
    using inv that
    by (auto simp: totalsInv_def split: option.splits dest!: spec [of _ role])
  have B: "roleTotals ?c (members role nodes) x" if "data role = Some x" for role x
  proof -
    from that obtain x0 where x0: "m role = Some x0" "x = finalizeRole Value (held role) x0"
      by (auto simp: d same)
    from B0 [OF x0(1)] have "roleTotals ?c (members role nodes) x0"
      by (simp add: fullTotals_def)
    with x0 show ?thesis by (simp add: roleTotals_finalizeRole)
  qed
  have fin: "finite (dom m)" using s [symmetric] by simp
  have "sum_list (map (\<lambda>role. case data role of Some d \<Rightarrow> TotalNodeCount d | None \<Rightarrow> 0)
             roleNames) =
        (\<Sum>role\<in>dom m. case data role of Some d \<Rightarrow> TotalNodeCount d | None \<Rightarrow> 0)"
    using dn s by (simp add: r same sum_list_distinct_conv_sum_set)
  also have "\<dots> = (\<Sum>role\<in>dom m. int (length (members role nodes)))"
  proof (rule sum.cong)
    fix role assume "role \<in> dom m"
    then obtain x where x: "data role = Some x" using dom by auto
    from B [OF x] have "TotalNodeCount x = int (length (members role nodes))"
      by (simp add: roleTotals_def)
    with x show "(case data role of Some d \<Rightarrow> TotalNodeCount d | None \<Rightarrow> 0) =
                 int (length (members role nodes))" by simp
  qed simp
  also have "\<dots> = sum_list (map (\<lambda>node. int (length (nodeRoles node))) nodes)"
    using fin A by (rule sum_members)
  finally have C: "sum_list (map (\<lambda>role. case data role of Some d \<Rightarrow> TotalNodeCount d | None \<Rightarrow> 0)
             roleNames) = sum_list (map (\<lambda>node. int (length (nodeRoles node))) nodes)" .
  from A B0 B C dom show ?thesis by (simp add: n fullTotals_def)
qed

text \<open>
  A node with the roles master and etcd and a node without role labels, the roles
  visited in reverse: master and etcd each hold the whole first node (4 CPU of capacity,
  3.5 allocatable CPU, one pod, 1 requested CPU), and the three node counts add up to
  2 + 1.
\<close>

theorem node_role_full_contribution_witness:
  "validRange (\<lambda>i. rev)
   \<and> (case nodeRoleRunE
            (Inr (exampleClient
                   [exampleNode\<lparr>Labels := [masterLabel, etcdLabel]\<rparr>,
                    exampleNode\<lparr>Name := ''node-b''\<rparr>] [examplePod]))
            Inr exampleValue heldAsInt64 (\<lambda>i. rev) of
        Inl err \<Rightarrow> False
      | Inr (data, roleNames) \<Rightarrow>
          roleNames = [''<none>'', ''etcd'', ''master'']
        \<and> map_option TotalCapacityCPU (data ''master'') = Some 4
        \<and> map_option TotalCapacityCPU (data ''etcd'') = Some 4
        \<and> map_option TotalAllocatableCPU (data ''master'') = Some (7 / 2)
        \<and> map_option TotalAllocatableCPU (data ''etcd'') = Some (7 / 2)
        \<and> map_option TotalPodCount (data ''master'') = Some 1
        \<and> map_option TotalPodCount (data ''etcd'') = Some 1
        \<and> map_option TotalRequestsCPU (data ''master'') = Some 1
        \<and> map_option TotalRequestsCPU (data ''etcd'') = Some 1
        \<and> sum_list (map (\<lambda>role. case data role of Some d \<Rightarrow> TotalNodeCount d | None \<Rightarrow> 0)
              roleNames) = 3)"
proof -
  let ?cs = "exampleClient
                   [exampleNode\<lparr>Labels := [masterLabel, etcdLabel]\<rparr>,
                    exampleNode\<lparr>Name := ''node-b''\<rparr>] [examplePod]"
  let ?run = "nodeRoleRunE (Inr ?cs) Inr exampleValue heldAsInt64 (\<lambda>i. rev)"
  have v: "validRange (\<lambda>i. rev)" by (simp add: validRange_def)
  have "\<exists>m names. nodeRoleAccumulate (Inr ?cs) Inr (\<lambda>i. rev) = Inr (m, names)"
    by (simp add: nodeRole_eval exampleClient_def)
  then obtain m names where
    acc: "nodeRoleAccumulate (Inr ?cs) Inr (\<lambda>i. rev) = Inr (m, names)"
    by blast
  have "\<exists>data. ?run = Inr (data, [''<none>'', ''etcd'', ''master''])
          \<and> map_option TotalCapacityCPU (data ''master'') = Some 4
          \<and> map_option TotalCapacityCPU (data ''etcd'') = Some 4
          \<and> map_option TotalAllocatableCPU (data ''master'') = Some (7 / 2)
          \<and> map_option TotalAllocatableCPU (data ''etcd'') = Some (7 / 2)
          \<and> map_option TotalPodCount (data ''master'') = Some 1
          \<and> map_option TotalPodCount (data ''etcd'') = Some 1
          \<and> map_option TotalRequestsCPU (data ''master'') = Some 1
          \<and> map_option TotalRequestsCPU (data ''etcd'') = Some 1"
    by (simp add: nodeRole_eval exampleClient_def exampleNode_def examplePod_def
          masterLabel_def etcdLabel_def heldAsInt64_def)
  then obtain data where run: "?run = Inr (data, [''<none>'', ''etcd'', ''master''])"
    and vals: "map_option TotalCapacityCPU (data ''master'') = Some 4"
      "map_option TotalCapacityCPU (data ''etcd'') = Some 4"
      "map_option TotalAllocatableCPU (data ''master'') = Some (7 / 2)"
      "map_option TotalAllocatableCPU (data ''etcd'') = Some (7 / 2)"
      "map_option TotalPodCount (data ''master'') = Some 1"
      "map_option TotalPodCount (data ''etcd'') = Some 1"
      "map_option TotalRequestsCPU (data ''master'') = Some 1"
      "map_option TotalRequestsCPU (data ''etcd'') = Some 1"
    by blast
  have "sum_list (map (\<lambda>node. int (length (nodeRoles node))) (fst (Nodes_List ?cs))) = 3"
    by (simp add: exampleClient_def exampleNode_def masterLabel_def etcdLabel_def
          nodeRoles_def labelRole_def HasPrefix_def TrimPrefix_def rolePrefix_def Let_def)
  with node_role_full_contribution [OF v acc run] v vals show ?thesis
    by (simp add: run)
qed

text \<open>
  C7. The slice of role names that the node-role command hands to the renderer is sorted
  in ascending lexicographic order; it lists the keys of the map, each once.
\<close>

theorem node_role_names_sorted:
  assumes "nodeRoleRunE (Inr cs) ParseSelector Value held rangeOrder = Inr (data, roleNames)"
  shows "sorted roleNames \<and> distinct roleNames \<and> set roleNames = dom data"
proof -
  from assms obtain m names where
    a: "nodeRoleAccumulate (Inr cs) ParseSelector rangeOrder = Inr (m, names)" and
    d: "data = (\<lambda>role. map_option (finalizeRole Value (held role)) (m role))" and
    r: "roleNames = sort names"
    by (rule nodeRoleRunE_Inr)
  from a have "set names = dom m" "distinct names"
    by (auto elim: nodeRoleAccumulate_Inr)
  with d r show ?thesis by (auto simp: domIff)
qed

text \<open>
  A node with the role worker followed by a node without role labels: the roles are
  found in the order worker, \<^verbatim>\<open><none>\<close> and rendered in the order
  \<^verbatim>\<open><none>\<close>, worker.
\<close>

theorem node_role_names_sorted_witness:
  "case nodeRoleRunE
          (Inr (exampleClient
                 [exampleNode\<lparr>Labels := [(''node-role.kubernetes.io/worker'', [])]\<rparr>,
                  exampleNode\<lparr>Name := ''node-b''\<rparr>] [examplePod]))
          Inr exampleValue heldAsInt64 (\<lambda>i roles. roles) of
     Inl err \<Rightarrow> False
   | Inr (data, roleNames) \<Rightarrow>
       roleNames = [''<none>'', ''worker''] \<and> sorted roleNames \<and> distinct roleNames
     \<and> set roleNames = dom data"
proof -
  let ?run = "nodeRoleRunE
          (Inr (exampleClient
                 [exampleNode\<lparr>Labels := [(''node-role.kubernetes.io/worker'', [])]\<rparr>,
                  exampleNode\<lparr>Name := ''node-b''\<rparr>] [examplePod]))
          Inr exampleValue heldAsInt64 (\<lambda>i roles. roles)"
  have "\<exists>data. ?run = Inr (data, [''<none>'', ''worker''])"
    by (simp add: nodeRole_eval exampleClient_def exampleNode_def examplePod_def)
  then obtain data where run: "?run = Inr (data, [''<none>'', ''worker''])" by blast
  from node_role_names_sorted [OF run] show ?thesis
    by (simp add: run)
qed

text \<open>
  C8. When the filtered pod listing returns the non-terminated pods of the unfiltered
  listing, the cluster record has a pod count that is at least its non-terminated pod
  count, and its request and limit sums are the sums over the containers of the
  non-terminated pods only.
\<close>

theorem cluster_pod_counts:
  assumes "clusterRunE (Inr cs) ParseSelector = Inr d"
    and "ParseSelector nonTermSelector = Inr sel"
    and "fst (Pods_List cs sel) = filter nonTerminated (fst (Pods_List cs ''''))"
  shows "TotalNonTermPodCount d \<le> TotalPodCount d
       \<and> TotalRequestsCPU d = podSum Requests_Cpu (filter nonTerminated (fst (Pods_List cs '''')))
       \<and> TotalLimitsCPU d = podSum Limits_Cpu (filter nonTerminated (fst (Pods_List cs '''')))
       \<and> TotalRequestsMemory d =
           podSum Requests_Memory (filter nonTerminated (fst (Pods_List cs '''')))
       \<and> TotalLimitsMemory d =
           podSum Limits_Memory (filter nonTerminated (fst (Pods_List cs '''')))"
  using assms
  by (elim clusterRunE_Inr)
     (simp add: fold_clusterPod fold_clusterNode_untouched new_ClusterCapacityData_def)

text \<open>
  A running pod and a succeeded pod with the same container: two pods, one of them
  non-terminated, and the requests of the running pod alone.
\<close>

theorem cluster_pod_counts_witness:
  "clusterRunE (Inr phaseClient) Inr = Inr (exampleRecord\<lparr>TotalPodCount := 2\<rparr>)
   \<and> fst (Pods_List phaseClient nonTermSelector) =
       filter nonTerminated (fst (Pods_List phaseClient ''''))
   \<and> TotalNonTermPodCount (exampleRecord\<lparr>TotalPodCount := 2\<rparr>)
       \<le> TotalPodCount (exampleRecord\<lparr>TotalPodCount := 2\<rparr>)
   \<and> TotalRequestsCPU (exampleRecord\<lparr>TotalPodCount := 2\<rparr>) = 1"
proof -
  have run: "clusterRunE (Inr phaseClient) Inr = Inr (exampleRecord\<lparr>TotalPodCount := 2\<rparr>)"
    by (simp add: cluster_eval phaseClient_def exampleNode_def examplePod_def exampleRecord_def)
  have sel: "(Inr :: string \<Rightarrow> error + string) nonTermSelector = Inr nonTermSelector" by simp
  have api: "fst (Pods_List phaseClient nonTermSelector) =
       filter nonTerminated (fst (Pods_List phaseClient ''''))"
    by (simp add: phaseClient_def nonTermSelector_def nonTerminated_def examplePod_def)
  from cluster_pod_counts [OF run sel api] run api show ?thesis
    by (simp add: exampleRecord_def)
qed

text \<open>
  C9. Two runs on the same cluster state give the same result, whatever the orders in
  which the two runs visit the labels of each node and the roles of each node (the form
  in which the library holds a total depends on the node list alone): the
  node-role command renders the same map and the same sorted role names (or returns the
  same error), and the cluster command renders the same record.
\<close>

theorem reports_deterministic:
  assumes "validRange rangeOrder1" and "validRange rangeOrder2" and "sameState cs1 cs2"
  shows "nodeRoleRunE (Inr cs1) ParseSelector Value held rangeOrder1 =
           nodeRoleRunE (Inr cs2) ParseSelector Value held rangeOrder2
       \<and> clusterRunE (Inr cs1) ParseSelector = clusterRunE (Inr cs2) ParseSelector"
  using nodeRoleRunE_same [OF assms] clusterRunE_same [OF assms(3)] by simp

theorem reports_deterministic_witness:
  "validRange (\<lambda>i roles. roles) \<and> validRange (\<lambda>i. rev)
   \<and> sameState (exampleClient [exampleNode\<lparr>Labels := [masterLabel, etcdLabel]\<rparr>] [examplePod])
       (exampleClient [exampleNode\<lparr>Labels := [etcdLabel, masterLabel]\<rparr>] [examplePod])
   \<and> nodeRoleRunE
       (Inr (exampleClient [exampleNode\<lparr>Labels := [masterLabel, etcdLabel]\<rparr>] [examplePod]))
       Inr exampleValue heldAsInt64 (\<lambda>i roles. roles) =
     nodeRoleRunE
       (Inr (exampleClient [exampleNode\<lparr>Labels := [etcdLabel, masterLabel]\<rparr>] [examplePod]))
       Inr exampleValue heldAsInt64 (\<lambda>i. rev)
   \<and> clusterRunE
       (Inr (exampleClient [exampleNode\<lparr>Labels := [masterLabel, etcdLabel]\<rparr>] [examplePod])) Inr =
     clusterRunE
       (Inr (exampleClient [exampleNode\<lparr>Labels := [etcdLabel, masterLabel]\<rparr>] [examplePod])) Inr"
proof -
  have v1: "validRange (\<lambda>i roles. roles)" by (simp add: validRange_def)
  have v2: "validRange (\<lambda>i. rev)" by (simp add: validRange_def)
  have s: "sameState
       (exampleClient [exampleNode\<lparr>Labels := [masterLabel, etcdLabel]\<rparr>] [examplePod])
       (exampleClient [exampleNode\<lparr>Labels := [etcdLabel, masterLabel]\<rparr>] [examplePod])"
    by (simp add: sameState_def sameNode_def exampleClient_def add_mset_commute)
  from reports_deterministic [OF v1 v2 s] v1 v2 s show ?thesis by simp
qed

text \<open>
  C10. The cluster command counts one ready node for each condition with type Ready and
  status True: the ready count is the number of such conditions over all nodes, and it
  exceeds the node count when a node carries two of them.
\<close>

theorem cluster_ready_counts_conditions:
  assumes "clusterRunE (Inr cs) ParseSelector = Inr d"
  shows "TotalReadyNodeCount d = sum_list (map readyConditions (fst (Nodes_List cs)))"
  using assms
  by (elim clusterRunE_Inr)
     (simp add: fold_clusterPod fold_clusterNode_ready new_ClusterCapacityData_def)

theorem cluster_ready_counts_conditions_witness:
  "case clusterRunE
          (Inr (exampleClient
                 [exampleNode\<lparr>Conditions := [\<lparr>Type = ''Ready'', Status = ''True''\<rparr>,
                    \<lparr>Type = ''Ready'', Status = ''True''\<rparr>]\<rparr>] [])) Inr of
     Inl err \<Rightarrow> False
   | Inr d \<Rightarrow> TotalReadyNodeCount d = 2 \<and> TotalNodeCount d = 1 \<and> TotalUnreadyNodeCount d = - 1"
proof -
  let ?cs = "exampleClient
                 [exampleNode\<lparr>Conditions := [\<lparr>Type = ''Ready'', Status = ''True''\<rparr>,
                    \<lparr>Type = ''Ready'', Status = ''True''\<rparr>]\<rparr>] []"
  have "\<exists>d. clusterRunE (Inr ?cs) Inr = Inr d \<and> TotalNodeCount d = 1
          \<and> TotalUnreadyNodeCount d = - 1"
    by (simp add: cluster_eval exampleClient_def exampleNode_def)
  then obtain d where run: "clusterRunE (Inr ?cs) Inr = Inr d"
    and vals: "TotalNodeCount d = 1" "TotalUnreadyNodeCount d = - 1"
    by blast
  from cluster_ready_counts_conditions [OF run] have "TotalReadyNodeCount d = 2"
    by (simp add: readyConditions_def readyTrue_def exampleClient_def exampleNode_def)
  with vals show ?thesis
    by (simp add: run)
qed

end
